theory Spec2Isabelle
  imports Complex_Main
begin

section \<open>Errors, units and quantities\<close>

text \<open>
  The exceptions the two modules raise. A \<open>ValueError\<close> carries the fixed part of its
  message (the formatted value or shape that follows it in the Python text is left out).
  \<open>UnitConversionError\<close> is what \<open>Quantity.to\<close> raises on units of different physical
  dimension, \<open>IndexError\<close> what indexing out of range raises, \<open>AssertionError\<close> a failed
  \<open>assert\<close>, \<open>AttributeError\<close> what reading \<open>.unit\<close> of a plain array raises.
\<close>

datatype error =
    ValueError string
  | IndexError
  | UnitConversionError
  | AssertionError
  | AttributeError

text \<open>
  A unit of the quantity library the code is written against: a factor to the SI base
  units and the exponents of metre, kilogram, second and kelvin. Only multiplicative
  units are modelled, which is all the two modules name.
\<close>

record unit =
  scale :: real
  dims :: "int \<times> int \<times> int \<times> int"

definition mk_unit :: "real \<Rightarrow> int \<Rightarrow> int \<Rightarrow> int \<Rightarrow> int \<Rightarrow> unit" where
  "mk_unit c m kg s k = \<lparr>scale = c, dims = (m, kg, s, k)\<rparr>"

definition dimensionless :: unit where "dimensionless = mk_unit 1 0 0 0 0"
definition u_Hz :: unit where "u_Hz = mk_unit 1 0 0 (-1) 0"
definition u_per_s :: unit where "u_per_s = mk_unit 1 0 0 (-1) 0"
definition u_GHz :: unit where "u_GHz = mk_unit 1000000000 0 0 (-1) 0"
definition u_s :: unit where "u_s = mk_unit 1 0 0 1 0"
definition u_K :: unit where "u_K = mk_unit 1 0 0 0 1"
definition u_m :: unit where "u_m = mk_unit 1 1 0 0 0"
definition u_km :: unit where "u_km = mk_unit 1000 1 0 0 0"
definition u_m_per_s :: unit where "u_m_per_s = mk_unit 1 1 0 (-1) 0"
definition u_J_per_K :: unit where "u_J_per_K = mk_unit 1 2 1 (-2) (-1)"
definition u_mK_per_Jy :: unit where
  \<comment> \<open>\<open>mK = 10^-3 K\<close>, \<open>Jy = 10^-26 W m^-2 Hz^-1 = 10^-26 kg s^-2\<close>\<close>
  "u_mK_per_Jy = mk_unit (10 ^ 23) 0 (-1) 2 1"

definition unit_mul :: "unit \<Rightarrow> unit \<Rightarrow> unit" where
  "unit_mul u v =
     (case (dims u, dims v) of ((a, b, c, d), (a', b', c', d')) \<Rightarrow>
        \<lparr>scale = scale u * scale v, dims = (a + a', b + b', c + c', d + d')\<rparr>)"

definition unit_div :: "unit \<Rightarrow> unit \<Rightarrow> unit" where
  "unit_div u v =
     (case (dims u, dims v) of ((a, b, c, d), (a', b', c', d')) \<Rightarrow>
        \<lparr>scale = scale u / scale v, dims = (a - a', b - b', c - c', d - d')\<rparr>)"

definition unit_sq :: "unit \<Rightarrow> unit" where
  "unit_sq u = unit_mul u u"

definition is_equivalent :: "unit \<Rightarrow> unit \<Rightarrow> bool" where
  "is_equivalent u v = (dims u = dims v)"

text \<open>\<open>Quantity.to\<close> on one number: rescale, or fail on a different dimension.\<close>

definition to_unit :: "unit \<Rightarrow> unit \<Rightarrow> real \<Rightarrow> error + real" where
  "to_unit u v x =
     (if is_equivalent u v then Inr (x * scale u / scale v) else Inl UnitConversionError)"

text \<open>
  A Python argument that is either a plain number or array, or a \<open>Quantity\<close>: the
  \<open>isinstance(_, Quantity)\<close> tests of the code are the case distinction on this type.
\<close>

datatype 'a arg = Plain 'a | Quantity 'a unit

section \<open>Arrays\<close>

text \<open>
  An n-dimensional array as the array library stores it: the shape and the elements in
  row-major order. A scalar has shape \<open>[]\<close> and one element.
\<close>

record 'a ndarray =
  shape :: "nat list"
  data :: "'a list"

definition wf :: "'a ndarray \<Rightarrow> bool" where
  "wf a = (length (data a) = prod_list (shape a))"

definition map_nd :: "('a \<Rightarrow> 'b) \<Rightarrow> 'a ndarray \<Rightarrow> 'b ndarray" where
  "map_nd f a = \<lparr>shape = shape a, data = map f (data a)\<rparr>"


definition ebind :: "error + 'a \<Rightarrow> ('a \<Rightarrow> error + 'b) \<Rightarrow> error + 'b" where
  "ebind m f = (case m of Inl e \<Rightarrow> Inl e | Inr x \<Rightarrow> f x)"

definition values_of :: "'a arg \<Rightarrow> 'a" where
  "values_of a = (case a of Plain x \<Rightarrow> x | Quantity x _ \<Rightarrow> x)"

text \<open>\<open>a.copy()\<close>: a new object with the same contents; on values, the same value.\<close>

definition copy :: "'a \<Rightarrow> 'a" where
  "copy a = a"

text \<open>All index tuples of a shape, in row-major order.\<close>

fun indices :: "nat list \<Rightarrow> nat list list" where
  "indices [] = [[]]"
| "indices (n # ns) = concat (map (\<lambda>i. map ((#) i) (indices ns)) [0..<n])"

text \<open>
  The position of an index tuple in the row-major data of an array of the given shape.
  An axis of length 1 is read at 0 whatever the index: this is how an operand is read
  under broadcasting.
\<close>

fun offset :: "nat list \<Rightarrow> nat list \<Rightarrow> nat" where
  "offset (n # ns) (i # idx) = (if n = 1 then 0 else i) * prod_list ns + offset ns idx"
| "offset _ _ = 0"

definition getitem :: "'a ndarray \<Rightarrow> nat list \<Rightarrow> 'a" where
  "getitem a idx = data a ! offset (shape a) idx"

text \<open>
  Broadcasting of two shapes: aligned at the last axis, two lengths agree when they are
  equal or one of them is 1.
\<close>

fun broadcast_rev :: "nat list \<Rightarrow> nat list \<Rightarrow> nat list option" where
  "broadcast_rev [] ys = Some ys"
| "broadcast_rev (x # xs) [] = Some (x # xs)"
| "broadcast_rev (x # xs) (y # ys) =
     (if x = y \<or> y = 1 then map_option ((#) x) (broadcast_rev xs ys)
      else if x = 1 then map_option ((#) y) (broadcast_rev xs ys)
      else None)"

definition broadcast_shapes :: "nat list \<Rightarrow> nat list \<Rightarrow> nat list option" where
  "broadcast_shapes s1 s2 = map_option rev (broadcast_rev (rev s1) (rev s2))"

definition pad_shape :: "nat \<Rightarrow> nat list \<Rightarrow> nat list" where
  "pad_shape k s = replicate (k - length s) 1 @ s"

text \<open>An elementwise binary operation of the array library, with broadcasting.\<close>

definition broadcast2 ::
  "('a \<Rightarrow> 'b \<Rightarrow> 'c) \<Rightarrow> 'a ndarray \<Rightarrow> 'b ndarray \<Rightarrow> error + 'c ndarray" where
  "broadcast2 f a b =
     (case broadcast_shapes (shape a) (shape b) of
        None \<Rightarrow> Inl (ValueError ''operands could not be broadcast together'')
      | Some s \<Rightarrow>
          Inr \<lparr>shape = s,
               data = map (\<lambda>idx. f (data a ! offset (pad_shape (length s) (shape a)) idx)
                                   (data b ! offset (pad_shape (length s) (shape b)) idx))
                        (indices s)\<rparr>)"

text \<open>
  Indexing with \<open>r\<close> full slices and one \<open>None\<close> after the first \<open>k\<close> of them, as in
  \<open>a[:, None, :, :]\<close> (\<open>k = 1\<close>, \<open>r = 3\<close>): a new axis of length 1; more slices than
  axes is an index error.
\<close>

definition getitem_newaxis :: "nat \<Rightarrow> nat \<Rightarrow> 'a ndarray \<Rightarrow> error + 'a ndarray" where
  "getitem_newaxis k r a =
     (if length (shape a) < r then Inl IndexError
      else Inr \<lparr>shape = take k (shape a) @ 1 # drop k (shape a), data = data a\<rparr>)"

text \<open>The rows of the last axis, and an operation applied to each of them.\<close>

definition rows :: "nat \<Rightarrow> 'a list \<Rightarrow> 'a list list" where
  "rows n xs = map (\<lambda>r. take n (drop (r * n) xs)) [0..<length xs div n]"

definition along_last :: "('a list \<Rightarrow> 'b list) \<Rightarrow> 'a ndarray \<Rightarrow> 'b ndarray" where
  "along_last g a = \<lparr>shape = shape a, data = concat (map g (rows (last (shape a)) (data a)))\<rparr>"

text \<open>
  The discrete Fourier transform of one row, \<open>A k = \<Sum> m < n. a m * exp (- 2 pi i m k / n)\<close>,
  as \<open>numpy.fft.fft\<close> defines it, over the complex numbers.
\<close>

definition dft :: "complex list \<Rightarrow> complex list" where
  "dft xs =
     (let n = length xs
      in map (\<lambda>k. \<Sum>m\<leftarrow>[0..<n]. xs ! m * cis (- 2 * pi * real m * real k / real n)) [0..<n])"

definition np_fft :: "complex ndarray \<Rightarrow> error + complex ndarray" where
  \<comment> \<open>\<open>numpy.fft.fft(a, axis=-1)\<close>; it refuses an axis of length 0\<close>
  "np_fft a =
     (if shape a = [] \<or> last (shape a) = 0
      then Inl (ValueError ''Invalid number of FFT data points'')
      else Inr (along_last dft a))"

definition fftshift1 :: "'a list \<Rightarrow> 'a list" where
  \<comment> \<open>a roll by \<open>n div 2\<close>\<close>
  "fftshift1 xs = (let n = length xs; p = n - n div 2 in drop p xs @ take p xs)"

definition np_fftshift :: "'a ndarray \<Rightarrow> 'a ndarray" where
  \<comment> \<open>\<open>numpy.fft.fftshift(a, axes=-1)\<close>\<close>
  "np_fftshift a = along_last fftshift1 a"

section \<open>The delay transform\<close>

text \<open>\<open>window(nfreqs).reshape(1, nfreqs)\<close>: the reshape fails on another length.\<close>

definition reshape_window :: "real list \<Rightarrow> nat \<Rightarrow> error + complex ndarray" where
  "reshape_window w nfreqs =
     (if length w \<noteq> nfreqs then Inl (ValueError ''cannot reshape array'')
      else Inr \<lparr>shape = [1, nfreqs], data = map complex_of_real w\<rparr>)"

text \<open>
  The three lines the function runs on each input: the transform of the tapered data
  along the last axis, the shift, and the product with \<open>delta_f\<close> in 1/s and with the
  unit of the first input. The transform of the array library returns plain numbers,
  which is why the code multiplies the unit back in.
\<close>

definition delay_array ::
  "complex ndarray arg \<Rightarrow> complex ndarray \<Rightarrow> real \<Rightarrow> unit \<Rightarrow> unit
     \<Rightarrow> error + complex ndarray \<times> unit" where
  "delay_array data_array win df df_unit unit =
     ebind (broadcast2 (*) (values_of data_array) win) (\<lambda>tapered.
     ebind (np_fft tapered) (\<lambda>transformed.
     ebind (to_unit df_unit u_per_s df) (\<lambda>df_per_s.
       Inr (map_nd (\<lambda>z. z * complex_of_real df_per_s) (np_fftshift transformed),
            unit_mul u_per_s unit))))"

text \<open>
  \<open>delay_transform\<close>. An omitted \<open>data_2_array\<close> or \<open>delta_f\<close> is \<open>None\<close>; the default
  of \<open>delta_f\<close> is 1 Hz. The window function is a parameter.
\<close>

definition delay_transform ::
  "complex ndarray arg \<Rightarrow> complex ndarray arg option \<Rightarrow> real arg option \<Rightarrow> (nat \<Rightarrow> real list)
     \<Rightarrow> error + complex ndarray arg" where
  "delay_transform data_1_array data_2_array delta_f window =
     (let unit = (case data_1_array of Quantity _ u \<Rightarrow> u | Plain _ \<Rightarrow> dimensionless)
      in case (case delta_f of None \<Rightarrow> Quantity 1 u_Hz | Some d \<Rightarrow> d) of
           Plain _ \<Rightarrow> Inl (ValueError ''delta_f must be an astropy Quantity object. value was : '')
         | Quantity df df_unit \<Rightarrow>
             let data_2_array = (case data_2_array of None \<Rightarrow> copy data_1_array | Some d \<Rightarrow> d);
                 shape_1 = shape (values_of data_1_array)
             in if shape (values_of data_2_array) \<noteq> shape_1
                then Inl (ValueError ''data_1_array and data_2_array must have same shape, '')
                else if shape_1 = [] then Inl IndexError
                else
                  let nfreqs = last shape_1
                  in ebind (reshape_window (window nfreqs) nfreqs) (\<lambda>win.
                     ebind (delay_array data_1_array win df df_unit unit) (\<lambda>(delay_1_array, unit_1).
                     ebind (delay_array data_2_array win df df_unit unit) (\<lambda>(delay_2_array, unit_2).
                       if length shape_1 = 3
                       then ebind (getitem_newaxis 0 2 delay_1_array) (\<lambda>d1.
                            ebind (getitem_newaxis 1 3 delay_2_array) (\<lambda>d2.
                            ebind (broadcast2 (*) (map_nd cnj d1) d2) (\<lambda>delay_power.
                              Inr (Quantity delay_power (unit_mul unit_1 unit_2)))))
                       else ebind (getitem_newaxis 1 3 delay_1_array) (\<lambda>d1.
                            ebind (getitem_newaxis 2 4 delay_2_array) (\<lambda>d2.
                            ebind (broadcast2 (*) (map_nd cnj d1) d2) (\<lambda>delay_power.
                              Inr (Quantity delay_power (unit_mul unit_1 unit_2)))))))))"

text \<open>
  The transform in the words of the specification, one entry at a time: the taper \<open>w\<close>
  times the row \<open>row\<close> of \<open>d\<close>, its discrete Fourier transform, read at the bin that the
  shift moves to position \<open>k\<close>, times \<open>delta_f\<close> in 1/s.
\<close>

definition spec_delay :: "complex ndarray \<Rightarrow> real list \<Rightarrow> real \<Rightarrow> nat list \<Rightarrow> nat \<Rightarrow> complex" where
  "spec_delay d w delta_f row k =
     (let n = length w; k' = (k + (n - n div 2)) mod n
      in (\<Sum>m\<leftarrow>[0..<n]. getitem d (row @ [m]) * complex_of_real (w ! m)
                          * cis (- 2 * pi * real m * real k' / real n))
         * complex_of_real delta_f)"

section \<open>Combining sample counts\<close>

definition combine_nsamples :: "real ndarray \<Rightarrow> real ndarray option \<Rightarrow> error + real ndarray" where
  "combine_nsamples nsample_1 nsample_2 =
     (let nsample_2 = (case nsample_2 of None \<Rightarrow> copy nsample_1 | Some n \<Rightarrow> n)
      in if shape nsample_1 \<noteq> shape nsample_2
         then Inl (ValueError ''nsample_1 and nsample_2 must have same shape, '')
         else if length (shape nsample_1) = 3
         then ebind (getitem_newaxis 0 2 nsample_1) (\<lambda>n1.
              ebind (getitem_newaxis 1 3 nsample_2) (\<lambda>n2.
              ebind (broadcast2 (*) n1 n2) (\<lambda>p. Inr (map_nd sqrt p))))
         else ebind (getitem_newaxis 1 3 nsample_1) (\<lambda>n1.
              ebind (getitem_newaxis 2 4 nsample_2) (\<lambda>n2.
              ebind (broadcast2 (*) n1 n2) (\<lambda>p. Inr (map_nd sqrt p)))))"

section \<open>Calls through references\<close>

text \<open>
  The caller's arrays live in a store and are passed by reference. Neither function
  assigns to an element of an array or updates one in place; the only store effect is
  the cell that \<open>copy\<close> allocates when the second array is omitted.
\<close>

type_synonym 'a store = "'a list"

definition alloc :: "'a store \<Rightarrow> 'a \<Rightarrow> nat \<times> 'a store" where
  "alloc st v = (length st, st @ [v])"

definition delay_transform_call ::
  "complex ndarray arg store \<Rightarrow> nat \<Rightarrow> nat option \<Rightarrow> real arg option \<Rightarrow> (nat \<Rightarrow> real list)
     \<Rightarrow> (error + complex ndarray arg) \<times> complex ndarray arg store" where
  "delay_transform_call st r1 r2 delta_f window =
     (case (case delta_f of None \<Rightarrow> Quantity 1 u_Hz | Some d \<Rightarrow> d) of
        Plain _ \<Rightarrow> (delay_transform (st ! r1) None delta_f window, st)
      | Quantity _ _ \<Rightarrow>
          let (r2', st') = (case r2 of None \<Rightarrow> alloc st (copy (st ! r1)) | Some r \<Rightarrow> (r, st))
          in (delay_transform (st' ! r1) (Some (st' ! r2')) delta_f window, st'))"

definition combine_nsamples_call ::
  "real ndarray store \<Rightarrow> nat \<Rightarrow> nat option \<Rightarrow> (error + real ndarray) \<times> real ndarray store" where
  "combine_nsamples_call st r1 r2 =
     (let (r2', st') = (case r2 of None \<Rightarrow> alloc st (copy (st ! r1)) | Some r \<Rightarrow> (r, st))
      in (combine_nsamples (st' ! r1) (Some (st' ! r2')), st'))"

section \<open>Removing the auto-correlations\<close>

definition np_ones :: "nat \<Rightarrow> bool list" where
  "np_ones n = replicate n True"

definition np_diag :: "bool list \<Rightarrow> bool ndarray" where
  "np_diag v =
     (let n = length v
      in \<lparr>shape = [n, n],
          data = concat (map (\<lambda>i. map (\<lambda>j. if i = j then v ! i else False) [0..<n]) [0..<n])\<rparr>)"

definition np_logical_not :: "bool ndarray \<Rightarrow> bool ndarray" where
  "np_logical_not a = map_nd Not a"

text \<open>
  Indexing with a boolean mask over two adjacent axes, \<open>lead\<close> axes before them
  (\<open>a[mask]\<close> with \<open>lead = 0\<close>, \<open>a[:, mask]\<close> with \<open>lead = 1\<close>): the mask must have the
  lengths of the two axes, the two axes collapse into one, and the sub-arrays at the
  true positions are kept in row-major order of the mask.
\<close>

definition mask_blocks :: "bool list \<Rightarrow> nat \<Rightarrow> 'a list \<Rightarrow> 'a list" where
  "mask_blocks msk m xs =
     concat (map (\<lambda>q. take m (drop (q * m) xs)) (filter (\<lambda>q. msk ! q) [0..<length msk]))"

definition getitem_mask :: "nat \<Rightarrow> bool ndarray \<Rightarrow> 'a ndarray \<Rightarrow> error + 'a ndarray" where
  "getitem_mask lead msk a =
     (let s = shape a; pre = take lead s; mid = take 2 (drop lead s); post = drop (lead + 2) s
      in if length s < lead + 2 \<or> mid \<noteq> shape msk then Inl IndexError
         else
           let k = length (filter id (data msk));
               m = prod_list post;
               sz = prod_list mid * m
           in Inr \<lparr>shape = pre @ k # post,
                   data = concat (map (\<lambda>p. mask_blocks (data msk) m (take sz (drop (p * sz) (data a))))
                                    [0..<prod_list pre])\<rparr>)"

definition remove_auto_correlations :: "'a ndarray \<Rightarrow> error + 'a ndarray" where
  "remove_auto_correlations data_array =
     (if length (shape data_array) \<noteq> 4 \<and> length (shape data_array) \<noteq> 5
      then Inl (ValueError ''Input data_array must be of type (Npols, Nbls, Nbls, Ntimes, Nfreqs) or (Nbls, Nbls, Ntimes, Nfreqs) but data_array has shape '')
      else
        let Nbls = (if length (shape data_array) = 4 then shape data_array ! 0
                    else shape data_array ! 1);
            index_array = np_logical_not (np_diag (np_ones Nbls))
        in if length (shape data_array) = 4 then getitem_mask 0 index_array data_array
           else getitem_mask 1 index_array data_array)"

text \<open>
  The result in the words of the specification: the pairs of two different baselines in
  row-major order, and the sub-array of an array at a tuple of leading indices.
\<close>

definition offdiag :: "nat \<Rightarrow> (nat \<times> nat) list" where
  "offdiag n = [(i, j). i \<leftarrow> [0..<n], j \<leftarrow> [0..<n], i \<noteq> j]"

definition block :: "'a ndarray \<Rightarrow> nat list \<Rightarrow> 'a list" where
  "block a idx =
     (let m = prod_list (drop (length idx) (shape a))
      in take m (drop (offset (take (length idx) (shape a)) idx * m) (data a)))"

section \<open>Noise power and noise\<close>

text \<open>
  \<open>calculate_noise_power\<close>, with \<open>freqs\<close> a one-dimensional array and \<open>inttime\<close> and
  \<open>trcvr\<close> single numbers; \<open>numpy.diff(freqs)[0]\<close> is an index error on fewer than two
  frequencies.
\<close>

definition np_diff :: "real list \<Rightarrow> real list" where
  "np_diff xs = map (\<lambda>i. xs ! Suc i - xs ! i) [0..<length xs - 1]"

definition calculate_noise_power ::
  "real ndarray \<Rightarrow> real list arg \<Rightarrow> real arg \<Rightarrow> real arg \<Rightarrow> error + real ndarray arg" where
  "calculate_noise_power nsamples freqs inttime trcvr =
     (case inttime of
        Plain _ \<Rightarrow> Inl (ValueError ''inttime must be an astropy Quantity object. value was: '')
      | Quantity t t_unit \<Rightarrow>
     (case freqs of
        Plain _ \<Rightarrow> Inl (ValueError ''freqs must be an astropy Quantity object. value was: '')
      | Quantity fs f_unit \<Rightarrow>
     (case trcvr of
        Plain _ \<Rightarrow> Inl (ValueError ''trcvr must be an astropy Quantity object.  value was: '')
      | Quantity tr tr_unit \<Rightarrow>
          if \<not> is_equivalent f_unit u_GHz then Inl UnitConversionError
          else
            let f_GHz = map (\<lambda>f. f * scale f_unit / scale u_GHz) fs;
                Tsys = map (\<lambda>f. 180 * (f / 0.18) powr (- 2.55)) f_GHz
            in ebind (to_unit tr_unit u_K tr) (\<lambda>tr_K.
                 let Tsys = map (\<lambda>T. T + tr_K) Tsys
                 in case np_diff fs of
                      [] \<Rightarrow> Inl IndexError
                    | delta_f # _ \<Rightarrow>
                        ebind (to_unit f_unit u_per_s delta_f) (\<lambda>df.
                        ebind (to_unit t_unit u_s t) (\<lambda>t_s.
                        ebind (broadcast2 (/) \<lparr>shape = [length Tsys], data = Tsys\<rparr>
                                 (map_nd (\<lambda>n. sqrt (df * t_s * n)) nsamples)) (\<lambda>noise_power.
                          Inr (Quantity noise_power u_K))))))))"

text \<open>The two formulas of the noise model in the words of the specification.\<close>

definition spec_T_sys :: "real \<Rightarrow> real \<Rightarrow> real" where
  "spec_T_sys nu_GHz trcvr_K = 180 * (nu_GHz / 0.18) powr (- 2.55) + trcvr_K"

definition spec_noise_power :: "real \<Rightarrow> real \<Rightarrow> real \<Rightarrow> real \<Rightarrow> real" where
  "spec_noise_power T_sys channel_width inttime nsamples =
     T_sys / sqrt (channel_width * inttime * nsamples)"

text \<open>
  \<open>generate_noise\<close>. The random source is a sequence of standard-normal draws and the
  number of draws taken so far; \<open>numpy.random.normal(size=shape)\<close> takes the next
  \<open>prod shape\<close> of them. The real parts are drawn first.
\<close>

type_synonym rng = "nat \<times> (nat \<Rightarrow> real)"

definition random_normal :: "nat list \<Rightarrow> rng \<Rightarrow> real ndarray \<times> rng" where
  "random_normal sz rng =
     (case rng of (k, draws) \<Rightarrow>
        (\<lparr>shape = sz, data = map draws [k..<k + prod_list sz]\<rparr>,
         (k + prod_list sz, draws)))"

definition generate_noise ::
  "real ndarray arg \<Rightarrow> rng \<Rightarrow> (error + complex ndarray arg) \<times> rng" where
  "generate_noise noise_power rng =
     (let p = values_of noise_power;
          (g_re, rng1) = random_normal (shape p) rng;
          (g_im, rng2) = random_normal (shape p) rng1;
          noise =
            ebind (broadcast2 (+) (map_nd (\<lambda>x. 1 * complex_of_real x) g_re)
                                  (map_nd (\<lambda>x. \<i> * complex_of_real x) g_im)) (\<lambda>g.
            ebind (broadcast2 (*) (map_nd complex_of_real p) g) (\<lambda>noise.
              Inr (map_nd (\<lambda>z. z / complex_of_real (sqrt 2)) noise)))
      in (case noise of
            Inl e \<Rightarrow> Inl e
          | Inr z \<Rightarrow> Inr (case noise_power of Plain _ \<Rightarrow> Plain z | Quantity _ u \<Rightarrow> Quantity z u),
          rng2))"

text \<open>
  The noise array in the words of the specification: for draws \<open>g_re\<close> and \<open>g_im\<close> of
  the shape of \<open>p\<close>, the array of that shape with the entries
  \<open>p * (g_re + i * g_im) / sqrt 2\<close>.
\<close>

definition spec_noise :: "real ndarray \<Rightarrow> real ndarray \<Rightarrow> real ndarray \<Rightarrow> complex ndarray" where
  "spec_noise p g_re g_im =
     \<lparr>shape = shape p,
      data = map (\<lambda>k. complex_of_real (data p ! k)
                    * (complex_of_real (data g_re ! k) + \<i> * complex_of_real (data g_im ! k))
                    / complex_of_real (sqrt 2))
               [0..<prod_list (shape p)]\<rparr>"

section \<open>Equality of unit parameters\<close>

text \<open>
  The value of a parameter: nothing, a plain array, or a quantity. \<open>Quantity\<close> is a
  subclass of the array class, so a quantity is an instance of the class of a plain array
  and not the other way round.
\<close>

datatype pyvalue = NoneValue | PlainValue "real ndarray" | QuantityValue "real ndarray" unit

fun isinstance_class_of :: "pyvalue \<Rightarrow> pyvalue \<Rightarrow> bool" where
  "isinstance_class_of NoneValue NoneValue = True"
| "isinstance_class_of (PlainValue _) (PlainValue _) = True"
| "isinstance_class_of (QuantityValue _ _) (QuantityValue _ _) = True"
| "isinstance_class_of (QuantityValue _ _) (PlainValue _) = True"
| "isinstance_class_of _ _ = False"

text \<open>
  The fields of a \<open>UnitParameter\<close> that its equality reads or writes; the field \<open>value\<close>
  is \<open>pvalue\<close> here. \<open>tols\<close> is the pair of the relative and the absolute tolerance, the
  absolute one plain or a quantity.
\<close>

record unit_parameter =
  name :: string
  pvalue :: pyvalue
  tols :: "real \<times> real arg"
  value_not_quantity :: bool
  expected_units :: "unit option"

definition np_allclose :: "real list \<Rightarrow> real list \<Rightarrow> real \<Rightarrow> real \<Rightarrow> bool" where
  "np_allclose a b rtol atol = list_all (\<lambda>(x, y). \<bar>x - y\<bar> \<le> atol + rtol * \<bar>y\<bar>) (zip a b)"

text \<open>
  \<open>UnitParameter.__eq__\<close> on two \<open>UnitParameter\<close> objects in a store, at the references
  \<open>l\<close> and \<open>r\<close> (which may be the same object). It returns its result and the store
  after the call. The equality of the base class, which is not part of this repository,
  is the parameter \<open>super_eq\<close>. The printed messages are left out.
\<close>

definition UnitParameter_eq ::
  "(unit_parameter \<Rightarrow> unit_parameter \<Rightarrow> bool) \<Rightarrow> unit_parameter store \<Rightarrow> nat \<Rightarrow> nat
     \<Rightarrow> (error + bool) \<times> unit_parameter store" where
  "UnitParameter_eq super_eq st l r =
     (if \<not> isinstance_class_of (pvalue (st ! l)) (pvalue (st ! r)) then (Inr False, st)
      else
        case pvalue (st ! l) of
          QuantityValue v u \<Rightarrow>
            let st1 = (case snd (tols (st ! l)) of
                         Plain a \<Rightarrow> st[l := (st ! l)\<lparr>tols := (fst (tols (st ! l)), Quantity a u)\<rparr>]
                       | Quantity _ _ \<Rightarrow> st)
            in (case pvalue (st1 ! r) of
                  QuantityValue w u' \<Rightarrow>
                    if shape v \<noteq> shape w then (Inr False, st1)
                    else if \<not> is_equivalent u u' then (Inr False, st1)
                    else
                      let st2 = st1[r := (st1 ! r)\<lparr>pvalue :=
                                   QuantityValue (map_nd (\<lambda>x. x * scale u' / scale u) w) u\<rparr>]
                      in (case (pvalue (st2 ! l), pvalue (st2 ! r)) of
                            (QuantityValue a _, QuantityValue b _) \<Rightarrow>
                              (Inr (np_allclose (data a) (data b) (fst (tols (st2 ! l)))
                                      (values_of (snd (tols (st2 ! l))))), st2)
                          | _ \<Rightarrow> (Inl AttributeError, st2))
                | PlainValue w \<Rightarrow>
                    if shape v \<noteq> shape w then (Inr False, st1) else (Inl AttributeError, st1)
                | NoneValue \<Rightarrow> (Inl AttributeError, st1))
        | _ \<Rightarrow> (Inr (super_eq (st ! l) (st ! r)), st))"

section \<open>Flux density to brightness temperature\<close>

text \<open>
  \<open>jy_to_mk\<close>. The speed of light \<open>c\<close> (in m/s) and the Boltzmann constant \<open>k_B\<close>
  (in J/K) come from the constants table of the quantity library and are parameters here.
\<close>

definition jy_to_mk :: "real \<Rightarrow> real \<Rightarrow> real ndarray arg \<Rightarrow> error + real ndarray arg" where
  "jy_to_mk c k_B freqs =
     (case freqs of
        Plain _ \<Rightarrow> Inl AssertionError
      | Quantity fs u \<Rightarrow>
          (case to_unit u_m_per_s u_m_per_s c of
             Inl e \<Rightarrow> Inl e
           | Inr c' \<Rightarrow>
               if \<not> is_equivalent u u_per_s then Inl UnitConversionError
               else
                 let f_si = map_nd (\<lambda>f. f * scale u / scale u_per_s) fs;
                     jy2t = map_nd (\<lambda>f. c' ^ 2 / (2 * f ^ 2 * k_B)) f_si;
                     jy2t_unit = unit_div (unit_sq u_m_per_s) (unit_mul (unit_sq u_per_s) u_J_per_K)
                 in if \<not> is_equivalent jy2t_unit u_mK_per_Jy then Inl UnitConversionError
                    else Inr (Quantity (map_nd (\<lambda>x. x * scale jy2t_unit / scale u_mK_per_Jy) jy2t)
                                u_mK_per_Jy)))"

section \<open>Index tuples and offsets\<close>

lemma concat_upt_blocks: "concat (map (\<lambda>i. map (\<lambda>j. i * P + j) [0..<P]) [0..<n]) = [0..<n * P]"
proof (induction n)
  case 0 show ?case by simp
next
  case (Suc n)
  have "map (\<lambda>j. n * P + j) [0..<P] = [n * P..<n * P + P]"
    by (simp add: map_add_upt add.commute)
  moreover have "[0..<n * P + P] = [0..<n * P] @ [n * P..<n * P + P]"
    by (rule upt_add_eq_append) simp
  ultimately show ?case using Suc by (simp add: add.commute)
qed

lemma indices_bound: "idx \<in> set (indices s) \<longleftrightarrow> list_all2 (<) idx s"
proof (induction s arbitrary: idx)
  case Nil show ?case by simp
next
  case (Cons n ns)
  show ?case
  proof (cases idx)
    case Nil then show ?thesis by auto
  next
    case (Cons a list)
    have "a # list \<in> set (indices (n # ns)) \<longleftrightarrow> a < n \<and> list \<in> set (indices ns)"
      by auto
    then show ?thesis using Cons.IH[of list] Cons by simp
  qed
qed

lemma map_offset_indices: "map (offset s) (indices s) = [0..<prod_list s]"
proof (induction s)
  case Nil show ?case by simp
next
  case (Cons n ns)
  have "map (offset (n # ns)) (indices (n # ns)) =
        concat (map (\<lambda>i. map (\<lambda>idx. (if n = 1 then 0 else i) * prod_list ns + offset ns idx) (indices ns)) [0..<n])"
    by (simp add: map_concat comp_def)
  also have "\<dots> = concat (map (\<lambda>i. map (\<lambda>idx. i * prod_list ns + offset ns idx) (indices ns)) [0..<n])"
    by (rule arg_cong[where f=concat], rule map_cong) auto
  also have "\<dots> = concat (map (\<lambda>i. map (\<lambda>j. i * prod_list ns + j) (map (offset ns) (indices ns))) [0..<n])"
    by (simp add: comp_def)
  also have "\<dots> = [0..<n * prod_list ns]"
    by (simp only: Cons concat_upt_blocks)
  finally show ?case by simp
qed

lemma length_indices: "length (indices s) = prod_list s"
  using arg_cong[OF map_offset_indices, of length s] by simp

lemma offset_indices_nth:
  assumes "list_all2 (<) idx s"
  shows "offset s idx < prod_list s \<and> indices s ! offset s idx = idx"
proof -
  from assms have "idx \<in> set (indices s)" by (simp add: indices_bound)
  then obtain j where j: "j < length (indices s)" "indices s ! j = idx"
    by (auto simp: in_set_conv_nth)
  have "map (offset s) (indices s) ! j = [0..<prod_list s] ! j"
    by (simp only: map_offset_indices)
  with j have "offset s idx = j" by (simp add: length_indices)
  with j show ?thesis by (simp add: length_indices)
qed

lemma nth_map_indices:
  "list_all2 (<) idx s \<Longrightarrow> map g (indices s) ! offset s idx = g idx"
  using offset_indices_nth[of idx s] by (simp add: length_indices)

lemma map_indices_offset:
  "map (\<lambda>idx. g (offset s idx)) (indices s) = map g [0..<prod_list s]"
proof -
  have "map (\<lambda>idx. g (offset s idx)) (indices s) = map g (map (offset s) (indices s))"
    by (simp add: comp_def)
  then show ?thesis by (simp only: map_offset_indices)
qed

subsection \<open>Lists of rows of one length\<close>

lemma length_concat_uniform:
  "\<forall>xs\<in>set xss. length xs = n \<Longrightarrow> length (concat xss) = length xss * n"
  by (induction xss) auto

lemma concat_nth_uniform:
  "\<forall>xs\<in>set xss. length xs = n \<Longrightarrow> r < length xss \<Longrightarrow> k < n
   \<Longrightarrow> concat xss ! (r * n + k) = xss ! r ! k"
proof (induction xss arbitrary: r)
  case Nil then show ?case by simp
next
  case (Cons x xss)
  show ?case
  proof (cases r)
    case 0 with Cons.prems show ?thesis by (simp add: nth_append)
  next
    case (Suc r')
    have "concat (x # xss) ! (Suc r' * n + k) = (x @ concat xss) ! (length x + (r' * n + k))"
      using Cons.prems by (simp add: add.assoc)
    also have "\<dots> = concat xss ! (r' * n + k)" by (rule nth_append_length_plus)
    also have "\<dots> = xss ! r' ! k" using Cons.prems Suc by (intro Cons.IH) auto
    finally show ?thesis using Suc by simp
  qed
qed

lemma drop_concat_uniform:
  "\<forall>xs\<in>set xss. length xs = n \<Longrightarrow> drop (r * n) (concat xss) = concat (drop r xss)"
proof (induction xss arbitrary: r)
  case Nil then show ?case by simp
next
  case (Cons x xss)
  then show ?case by (cases r) auto
qed

lemma rows_concat:
  assumes "\<forall>xs\<in>set xss. length xs = n" "0 < n"
  shows "rows n (concat xss) = xss"
proof (rule nth_equalityI)
  show len: "length (rows n (concat xss)) = length xss"
    using assms(2) by (simp add: rows_def length_concat_uniform[OF assms(1)])
  fix r assume "r < length (rows n (concat xss))"
  with len have r: "r < length xss" by simp
  have "drop r xss = xss ! r # drop (Suc r) xss" using r by (simp add: Cons_nth_drop_Suc)
  then have "take n (drop (r * n) (concat xss)) = xss ! r"
    using assms r by (simp add: drop_concat_uniform)
  then show "rows n (concat xss) ! r = xss ! r"
    using r assms(2) by (simp add: rows_def length_concat_uniform[OF assms(1)])
qed

lemma rows_props:
  assumes "length xs = R * n" "0 < n"
  shows "length (rows n xs) = R" and "\<forall>ys\<in>set (rows n xs). length ys = n"
    and "r < R \<Longrightarrow> rows n xs ! r = take n (drop (r * n) xs)"
proof -
  show "length (rows n xs) = R" using assms by (simp add: rows_def)
  show "r < R \<Longrightarrow> rows n xs ! r = take n (drop (r * n) xs)" using assms by (simp add: rows_def)
  show "\<forall>ys\<in>set (rows n xs). length ys = n"
  proof
    fix ys assume "ys \<in> set (rows n xs)"
    then obtain r where r: "r < R" "ys = take n (drop (r * n) xs)"
      using assms by (auto simp: rows_def)
    have "r * n + n \<le> R * n" using r(1) by (metis Suc_leI mult_Suc mult_le_mono1 add.commute)
    then show "length ys = n" using r assms by simp
  qed
qed

lemma row_nth:
  assumes "length xs = R * n" "r < R" "k < n"
  shows "take n (drop (r * n) xs) ! k = xs ! (r * n + k)"
proof -
  have "r * n + n \<le> R * n" using assms(2) by (metis Suc_leI mult_Suc mult_le_mono1 add.commute)
  then show ?thesis using assms by simp
qed

lemma along_last_data_nth:
  assumes "length xs = R * n" "0 < n" "r < R" "k < n"
    and "\<And>ys. length ys = n \<Longrightarrow> length (g ys) = n"
  shows "concat (map g (rows n xs)) ! (r * n + k) = g (take n (drop (r * n) xs)) ! k"
    and "length (concat (map g (rows n xs))) = R * n"
proof -
  have u: "\<forall>ys\<in>set (map g (rows n xs)). length ys = n"
    using rows_props(2)[OF assms(1,2)] assms(5) by auto
  have l: "length (map g (rows n xs)) = R" using rows_props(1)[OF assms(1,2)] by simp
  show "concat (map g (rows n xs)) ! (r * n + k) = g (take n (drop (r * n) xs)) ! k"
    using concat_nth_uniform[OF u, of r k] l assms rows_props(3)[OF assms(1,2), of r] by simp
  show "length (concat (map g (rows n xs))) = R * n"
    using length_concat_uniform[OF u] l by simp
qed

subsection \<open>The transform and the shift of one row\<close>

lemma length_dft: "length (dft xs) = length xs" by (simp add: dft_def Let_def)

lemma dft_nth: "k < length xs \<Longrightarrow>
  dft xs ! k = (\<Sum>m\<leftarrow>[0..<length xs]. xs ! m * cis (- 2 * pi * real m * real k / real (length xs)))"
  by (simp add: dft_def Let_def)

lemma length_fftshift1: "length (fftshift1 xs) = length xs" by (simp add: fftshift1_def Let_def)

lemma fftshift1_nth:
  assumes "k < length xs"
  shows "fftshift1 xs ! k = xs ! ((k + (length xs - length xs div 2)) mod length xs)"
proof -
  define n where "n = length xs"
  define h where "h = n div 2"
  define p where "p = n - h"
  have hn: "h \<le> n" "p \<le> n" "n - p = h" "k < n" "p + h = n"
    using assms by (auto simp: h_def p_def n_def)
  have sh: "fftshift1 xs = drop p xs @ take p xs"
    by (simp add: fftshift1_def Let_def p_def h_def n_def)
  have ld: "length (drop p xs) = h" using hn by (simp add: n_def[symmetric])
  show ?thesis
  proof (cases "k < h")
    case True
    then have "k + p < n" using hn by arith
    then have "(k + p) mod n = p + k" by (simp add: add.commute)
    moreover have "fftshift1 xs ! k = xs ! (p + k)"
      using True hn ld by (simp add: sh nth_append n_def)
    ultimately show ?thesis by (simp add: p_def h_def n_def)
  next
    case False
    then have "k + p = (k - h) + n" using hn by arith
    then have "(k + p) mod n = (k - h) mod n" by (simp only: mod_add_self2)
    moreover have "k - h < n" using hn by arith
    ultimately have m: "(k + p) mod n = k - h" by simp
    have "k - h < p" using False hn by arith
    then have "fftshift1 xs ! k = xs ! (k - h)"
      using False hn ld by (simp add: sh nth_append)
    with m show ?thesis by (simp add: p_def h_def n_def)
  qed
qed

subsection \<open>Broadcasting a vector along the last axis\<close>

lemma broadcast_rev_ones_right: "j \<le> length xs \<Longrightarrow> broadcast_rev xs (replicate j (Suc 0)) = Some xs"
proof (induction xs arbitrary: j)
  case Nil then show ?case by simp
next
  case (Cons x xs) then show ?case by (cases j) auto
qed

lemma broadcast_rev_ones_left: "j \<le> length ys \<Longrightarrow> broadcast_rev (replicate j (Suc 0)) ys = Some ys"
proof (induction ys arbitrary: j)
  case Nil then show ?case by simp
next
  case (Cons y ys) then show ?case by (cases j) auto
qed

lemma broadcast_shapes_last_right:
  "j \<le> length s \<Longrightarrow> broadcast_shapes (s @ [n]) (replicate j (Suc 0) @ [n]) = Some (s @ [n])"
  by (simp add: broadcast_shapes_def broadcast_rev_ones_right)

lemma broadcast_shapes_last_left:
  "j \<le> length s \<Longrightarrow> broadcast_shapes (replicate j (Suc 0) @ [n]) (s @ [n]) = Some (s @ [n])"
  by (simp add: broadcast_shapes_def broadcast_rev_ones_left)

lemma pad_shape_last: "j \<le> length s \<Longrightarrow> pad_shape (length (s @ [n])) (replicate j (Suc 0) @ [n]) = replicate (length s) (Suc 0) @ [n]"
  by (simp add: pad_shape_def replicate_add[symmetric])

lemma pad_shape_self: "pad_shape (length s) s = s" by (simp add: pad_shape_def)

lemma offset_last_axis:
  "list_all2 (<) idx (s @ [n]) \<Longrightarrow> offset (replicate (length s) (Suc 0) @ [n]) idx = offset (s @ [n]) idx mod n"
proof (induction s arbitrary: idx)
  case Nil
  then show ?case by (cases idx) (auto simp: list_all2_Cons2)
next
  case (Cons a s)
  then obtain i idx' where idx: "idx = i # idx'" "i < a" "list_all2 (<) idx' (s @ [n])"
    by (auto simp: list_all2_Cons2)
  have "offset (replicate (length (a # s)) (Suc 0) @ [n]) idx = offset (replicate (length s) (Suc 0) @ [n]) idx'"
    using idx by simp
  also have "\<dots> = offset (s @ [n]) idx' mod n" by (rule Cons.IH[OF idx(3)])
  also have "\<dots> = offset ((a # s) @ [n]) idx mod n"
    using idx by (simp add: mult.assoc[symmetric])
  finally show ?case .
qed

lemma broadcast2_last_right:
  assumes "shape a = s @ [n]" "j \<le> length s"
  shows "broadcast2 f a \<lparr>shape = replicate j (Suc 0) @ [n], data = w\<rparr> =
         Inr \<lparr>shape = s @ [n], data = map (\<lambda>q. f (data a ! q) (w ! (q mod n))) [0..<prod_list s * n]\<rparr>"
proof -
  have "map (\<lambda>idx. f (data a ! offset (s @ [n]) idx) (w ! offset (replicate (length s) (Suc 0) @ [n]) idx)) (indices (s @ [n]))
      = map (\<lambda>idx. (\<lambda>q. f (data a ! q) (w ! (q mod n))) (offset (s @ [n]) idx)) (indices (s @ [n]))"
    by (rule map_cong) (auto simp: indices_bound offset_last_axis)
  also have "\<dots> = map (\<lambda>q. f (data a ! q) (w ! (q mod n))) [0..<prod_list (s @ [n])]"
    by (rule map_indices_offset)
  finally show ?thesis
    using assms pad_shape_last[OF assms(2), of n] pad_shape_self[of "s @ [n]"]
    by (simp add: broadcast2_def broadcast_shapes_last_right del: length_append)
qed

lemma broadcast2_last_left:
  assumes "shape a = s @ [n]" "j \<le> length s"
  shows "broadcast2 f \<lparr>shape = replicate j (Suc 0) @ [n], data = w\<rparr> a =
         Inr \<lparr>shape = s @ [n], data = map (\<lambda>q. f (w ! (q mod n)) (data a ! q)) [0..<prod_list s * n]\<rparr>"
proof -
  have "map (\<lambda>idx. f (w ! offset (replicate (length s) (Suc 0) @ [n]) idx) (data a ! offset (s @ [n]) idx)) (indices (s @ [n]))
      = map (\<lambda>idx. (\<lambda>q. f (w ! (q mod n)) (data a ! q)) (offset (s @ [n]) idx)) (indices (s @ [n]))"
    by (rule map_cong) (auto simp: indices_bound offset_last_axis)
  also have "\<dots> = map (\<lambda>q. f (w ! (q mod n)) (data a ! q)) [0..<prod_list (s @ [n])]"
    by (rule map_indices_offset)
  finally show ?thesis
    using assms pad_shape_last[OF assms(2), of n] pad_shape_self[of "s @ [n]"]
    by (simp add: broadcast2_def broadcast_shapes_last_left del: length_append)
qed

subsection \<open>Broadcasting over the two baseline axes\<close>

lemma bs3: "broadcast_shapes [Suc 0,b,t,f] [b,Suc 0,t,f] = Some [b,b,t,f]" by (simp add: broadcast_shapes_def)
lemma bs4: "broadcast_shapes [p,Suc 0,b,t,f] [p,b,Suc 0,t,f] = Some [p,b,b,t,f]" by (simp add: broadcast_shapes_def)

lemma cross3:
  "broadcast2 g \<lparr>shape = [Suc 0,b,t,f], data = A\<rparr> \<lparr>shape = [b,Suc 0,t,f], data = C\<rparr> =
     Inr \<lparr>shape = [b,b,t,f],
          data = map (\<lambda>idx. g (A ! offset [Suc 0,b,t,f] idx) (C ! offset [b,Suc 0,t,f] idx)) (indices [b,b,t,f])\<rparr>"
  by (simp add: broadcast2_def bs3 pad_shape_def)

lemma cross3_nth:
  assumes "i < b" "j < b" "\<tau> < t" "k < f"
  shows "map (\<lambda>idx. g (A ! offset [Suc 0,b,t,f] idx) (C ! offset [b,Suc 0,t,f] idx)) (indices [b,b,t,f]) ! offset [b,b,t,f] [i,j,\<tau>,k]
       = g (A ! offset [b,t,f] [j,\<tau>,k]) (C ! offset [b,t,f] [i,\<tau>,k])"
proof -
  have l: "list_all2 (<) [i,j,\<tau>,k] [b,b,t,f]" using assms by simp
  have a: "offset [Suc 0,b,t,f] [i,j,\<tau>,k] = offset [b,t,f] [j,\<tau>,k]" by simp
  have c: "offset [b,Suc 0,t,f] [i,j,\<tau>,k] = offset [b,t,f] [i,\<tau>,k]" by simp
  show ?thesis by (simp only: nth_map_indices[OF l] a c)
qed

lemma cross4:
  "broadcast2 g \<lparr>shape = [p,Suc 0,b,t,f], data = A\<rparr> \<lparr>shape = [p,b,Suc 0,t,f], data = C\<rparr> =
     Inr \<lparr>shape = [p,b,b,t,f],
          data = map (\<lambda>idx. g (A ! offset [p,Suc 0,b,t,f] idx) (C ! offset [p,b,Suc 0,t,f] idx)) (indices [p,b,b,t,f])\<rparr>"
  by (simp add: broadcast2_def bs4 pad_shape_def)

lemma cross4_nth:
  assumes "\<pi> < p" "i < b" "j < b" "\<tau> < t" "k < f"
  shows "map (\<lambda>idx. g (A ! offset [p,Suc 0,b,t,f] idx) (C ! offset [p,b,Suc 0,t,f] idx)) (indices [p,b,b,t,f]) ! offset [p,b,b,t,f] [\<pi>,i,j,\<tau>,k]
       = g (A ! offset [p,b,t,f] [\<pi>,j,\<tau>,k]) (C ! offset [p,b,t,f] [\<pi>,i,\<tau>,k])"
proof -
  have l: "list_all2 (<) [\<pi>,i,j,\<tau>,k] [p,b,b,t,f]" using assms by simp
  have a: "offset [p,Suc 0,b,t,f] [\<pi>,i,j,\<tau>,k] = offset [p,b,t,f] [\<pi>,j,\<tau>,k]" by simp
  have c: "offset [p,b,Suc 0,t,f] [\<pi>,i,j,\<tau>,k] = offset [p,b,t,f] [\<pi>,i,\<tau>,k]" by simp
  show ?thesis by (simp only: nth_map_indices[OF l] a c)
qed

subsection \<open>Arrays of one shape, and the last index\<close>

lemma offset_snoc:
  "list_all2 (<) idx s \<Longrightarrow> k < f \<Longrightarrow> offset (s @ [f]) (idx @ [k]) = offset s idx * f + k"
proof (induction s arbitrary: idx)
  case Nil
  then show ?case by auto
next
  case (Cons a s)
  then obtain i idx' where idx: "idx = i # idx'" "i < a" "list_all2 (<) idx' s"
    by (auto simp: list_all2_Cons2)
  show ?case using Cons.IH[OF idx(3) Cons.prems(2)] idx by (simp add: algebra_simps)
qed

lemma broadcast_rev_same: "broadcast_rev xs xs = Some xs"
  by (induction xs) auto

lemma broadcast2_same_shape:
  assumes "shape a = s" "shape b = s"
  shows "broadcast2 f a b =
         Inr \<lparr>shape = s, data = map (\<lambda>q. f (data a ! q) (data b ! q)) [0..<prod_list s]\<rparr>"
proof -
  have "map (\<lambda>idx. f (data a ! offset s idx) (data b ! offset s idx)) (indices s)
      = map (\<lambda>q. f (data a ! q) (data b ! q)) [0..<prod_list s]"
    by (rule map_indices_offset)
  then show ?thesis
    using assms by (simp add: broadcast2_def broadcast_shapes_def broadcast_rev_same pad_shape_self)
qed

section \<open>Properties\<close>

text \<open>
  C9. For a frequency quantity \<open>freqs\<close> (in any unit of dimension 1/time),
  \<open>jy_to_mk\<close> returns, elementwise, \<open>c^2 / (2 * freqs^2 * k_B)\<close> with \<open>freqs\<close> in 1/s,
  converted to mK/Jy, that is divided by \<open>10^23\<close>, as a quantity in mK/Jy of the shape
  of \<open>freqs\<close>; an argument that is not a quantity fails with an assertion error.
  Numbers are real numbers here, not floating-point numbers.
\<close>

theorem jy_to_mk_spec:
  "(is_equivalent u u_Hz \<longrightarrow>
      jy_to_mk c k_B (Quantity fs u) =
        Inr (Quantity \<lparr>shape = shape fs,
                       data = map (\<lambda>f. c ^ 2 / (2 * (f * scale u) ^ 2 * k_B) / 10 ^ 23) (data fs)\<rparr>
               u_mK_per_Jy))
   \<and> jy_to_mk c k_B (Plain x) = Inl AssertionError"
  by (simp add: jy_to_mk_def to_unit_def is_equivalent_def map_nd_def mk_unit_def
      u_Hz_def u_per_s_def u_m_per_s_def u_J_per_K_def u_mK_per_Jy_def
      unit_div_def unit_mul_def unit_sq_def Let_def)

theorem jy_to_mk_spec_witness:
  "is_equivalent (mk_unit 1000000 0 0 (-1) 0) u_Hz
   \<and> jy_to_mk 299792458 (1 / 10 ^ 23) (Quantity \<lparr>shape = [], data = [150]\<rparr> (mk_unit 1000000 0 0 (-1) 0)) =
       Inr (Quantity \<lparr>shape = [], data = [299792458 ^ 2 / (2 * (150 * 1000000) ^ 2 * (1 / 10 ^ 23)) / 10 ^ 23]\<rparr>
              u_mK_per_Jy)
   \<and> jy_to_mk 299792458 (1 / 10 ^ 23) (Plain \<lparr>shape = [], data = [150]\<rparr>) = Inl AssertionError"
  using jy_to_mk_spec [of "mk_unit 1000000 0 0 (-1) 0" 299792458 "1 / 10 ^ 23"
      "\<lparr>shape = [], data = [150]\<rparr>" "\<lparr>shape = [], data = [150]\<rparr>"]
  by (simp add: is_equivalent_def mk_unit_def u_Hz_def)

text \<open>
  C6. \<open>calculate_noise_power\<close> fails with a \<open>ValueError\<close> whenever \<open>inttime\<close>, \<open>freqs\<close>
  or \<open>trcvr\<close> is a plain number or array instead of a quantity, whatever the other
  arguments are, so before anything is computed from them. The three tests are separate
  and run in the order \<open>inttime\<close>, \<open>freqs\<close>, \<open>trcvr\<close>; each has its own message, naming
  its argument, and the three messages differ.
\<close>

theorem calculate_noise_power_validation:
  "calculate_noise_power ns fq (Plain t) tr =
     Inl (ValueError ''inttime must be an astropy Quantity object. value was: '')
   \<and> calculate_noise_power ns (Plain fs) (Quantity t' tu) tr =
     Inl (ValueError ''freqs must be an astropy Quantity object. value was: '')
   \<and> calculate_noise_power ns (Quantity fs' fu) (Quantity t' tu) (Plain x) =
     Inl (ValueError ''trcvr must be an astropy Quantity object.  value was: '')
   \<and> distinct [''inttime must be an astropy Quantity object. value was: '',
                ''freqs must be an astropy Quantity object. value was: '',
                ''trcvr must be an astropy Quantity object.  value was: '']"
  by (simp add: calculate_noise_power_def)

text \<open>
  C5, as amended. A \<open>delta_f\<close> that is given and is not a quantity makes
  \<open>delay_transform\<close> fail with a \<open>ValueError\<close>, whatever the other arguments are, so
  before anything is computed. An absent \<open>delta_f\<close> is not an error: the call is the
  call with \<open>delta_f\<close> = 1 Hz.
\<close>

theorem delay_transform_delta_f_validation:
  "delay_transform d1 d2 (Some (Plain x)) window =
     Inl (ValueError ''delta_f must be an astropy Quantity object. value was : '')
   \<and> delay_transform d1 d2 None window = delay_transform d1 d2 (Some (Quantity 1 u_Hz)) window"
  by (simp add: delay_transform_def)

text \<open>
  The claim as it is written fails twice. With \<open>delta_f\<close> absent the call on a
  \<open>(1, 1, 1)\<close> array returns a result. With \<open>delta_f\<close> a quantity of time, not of
  frequency, the call fails with a unit conversion error, raised by the conversion to
  1/s after the transform of the first array, not with the validation error.
\<close>

theorem delay_transform_delta_f_counterexample:
  "delay_transform (Plain \<lparr>shape = [1, 1, 1], data = [1]\<rparr>) None None (\<lambda>n. replicate n 1) =
     Inr (Quantity \<lparr>shape = [1, 1, 1, 1], data = [1]\<rparr>
            (unit_mul (unit_mul u_per_s dimensionless) (unit_mul u_per_s dimensionless)))
   \<and> delay_transform (Plain \<lparr>shape = [1, 1, 1], data = [1]\<rparr>) None (Some (Quantity 1 u_s))
        (\<lambda>n. replicate n 1) = Inl UnitConversionError"
  by (simp add: delay_transform_def delay_array_def ebind_def reshape_window_def copy_def
      values_of_def broadcast2_def broadcast_shapes_def pad_shape_def np_fft_def np_fftshift_def
      along_last_def rows_def dft_def fftshift1_def to_unit_def is_equivalent_def map_nd_def
      getitem_newaxis_def u_Hz_def u_per_s_def u_s_def mk_unit_def Let_def)

text \<open>
  C7. With the caller's arrays in a store: a call that omits the second array returns
  what the call returns that passes a second reference \<open>r2\<close>, different from the first,
  to a cell with the same contents; the call with the omitted argument leaves every cell
  the caller had as it was (it only adds the cell of the copy), and the call with both
  arguments leaves the store as it was. This holds for \<open>delay_transform\<close> and for
  \<open>combine_nsamples\<close>.
\<close>

theorem omitted_second_array_is_copy:
  assumes "r1 < length st" "r2 < length st" "r2 \<noteq> r1" "st ! r2 = st ! r1"
    and "q1 < length sn" "q2 < length sn" "q2 \<noteq> q1" "sn ! q2 = sn ! q1"
  shows "fst (delay_transform_call st r1 None delta_f window) =
           fst (delay_transform_call st r1 (Some r2) delta_f window)
       \<and> take (length st) (snd (delay_transform_call st r1 None delta_f window)) = st
       \<and> snd (delay_transform_call st r1 (Some r2) delta_f window) = st
       \<and> fst (combine_nsamples_call sn q1 None) = fst (combine_nsamples_call sn q1 (Some q2))
       \<and> take (length sn) (snd (combine_nsamples_call sn q1 None)) = sn
       \<and> snd (combine_nsamples_call sn q1 (Some q2)) = sn"
proof -
  have d: "delay_transform x None delta_f window = delay_transform x (Some x) delta_f window" for x
    by (simp add: delay_transform_def copy_def Let_def split: option.splits arg.splits)
  show ?thesis
    using assms
    by (auto simp: delay_transform_call_def combine_nsamples_call_def alloc_def copy_def
        nth_append d split: arg.splits option.splits)
qed

theorem omitted_second_array_is_copy_witness:
  "(0::nat) < length [Plain \<lparr>shape = [1, 1, 1], data = [2 :: complex]\<rparr>, Plain \<lparr>shape = [1, 1, 1], data = [2]\<rparr>]
   \<and> (1::nat) < length [Plain \<lparr>shape = [1, 1, 1], data = [2 :: complex]\<rparr>, Plain \<lparr>shape = [1, 1, 1], data = [2]\<rparr>]
   \<and> (1::nat) \<noteq> 0
   \<and> [Plain \<lparr>shape = [1, 1, 1], data = [2 :: complex]\<rparr>, Plain \<lparr>shape = [1, 1, 1], data = [2]\<rparr>] ! 1
       = [Plain \<lparr>shape = [1, 1, 1], data = [2 :: complex]\<rparr>, Plain \<lparr>shape = [1, 1, 1], data = [2]\<rparr>] ! 0
   \<and> (0::nat) < length [\<lparr>shape = [1, 1, 1], data = [3 :: real]\<rparr>, \<lparr>shape = [1, 1, 1], data = [3]\<rparr>]
   \<and> (1::nat) < length [\<lparr>shape = [1, 1, 1], data = [3 :: real]\<rparr>, \<lparr>shape = [1, 1, 1], data = [3]\<rparr>]
   \<and> [\<lparr>shape = [1, 1, 1], data = [3 :: real]\<rparr>, \<lparr>shape = [1, 1, 1], data = [3]\<rparr>] ! 1
       = [\<lparr>shape = [1, 1, 1], data = [3 :: real]\<rparr>, \<lparr>shape = [1, 1, 1], data = [3]\<rparr>] ! 0
   \<and> fst (delay_transform_call
          [Plain \<lparr>shape = [1, 1, 1], data = [2]\<rparr>, Plain \<lparr>shape = [1, 1, 1], data = [2]\<rparr>]
          0 None None (\<lambda>n. replicate n 1))
       = fst (delay_transform_call
          [Plain \<lparr>shape = [1, 1, 1], data = [2]\<rparr>, Plain \<lparr>shape = [1, 1, 1], data = [2]\<rparr>]
          0 (Some 1) None (\<lambda>n. replicate n 1))
   \<and> take (Suc (Suc 0)) (snd (delay_transform_call
          [Plain \<lparr>shape = [1, 1, 1], data = [2]\<rparr>, Plain \<lparr>shape = [1, 1, 1], data = [2]\<rparr>]
          0 None None (\<lambda>n. replicate n 1)))
       = [Plain \<lparr>shape = [1, 1, 1], data = [2]\<rparr>, Plain \<lparr>shape = [1, 1, 1], data = [2]\<rparr>]
   \<and> snd (delay_transform_call
          [Plain \<lparr>shape = [1, 1, 1], data = [2]\<rparr>, Plain \<lparr>shape = [1, 1, 1], data = [2]\<rparr>]
          0 (Some 1) None (\<lambda>n. replicate n 1))
       = [Plain \<lparr>shape = [1, 1, 1], data = [2]\<rparr>, Plain \<lparr>shape = [1, 1, 1], data = [2]\<rparr>]
   \<and> fst (combine_nsamples_call [\<lparr>shape = [1, 1, 1], data = [3]\<rparr>, \<lparr>shape = [1, 1, 1], data = [3]\<rparr>] 0 None)
       = fst (combine_nsamples_call [\<lparr>shape = [1, 1, 1], data = [3]\<rparr>, \<lparr>shape = [1, 1, 1], data = [3]\<rparr>] 0 (Some 1))
   \<and> take (Suc (Suc 0)) (snd (combine_nsamples_call [\<lparr>shape = [1, 1, 1], data = [3]\<rparr>, \<lparr>shape = [1, 1, 1], data = [3]\<rparr>] 0 None))
       = [\<lparr>shape = [1, 1, 1], data = [3]\<rparr>, \<lparr>shape = [1, 1, 1], data = [3]\<rparr>]
   \<and> snd (combine_nsamples_call [\<lparr>shape = [1, 1, 1], data = [3]\<rparr>, \<lparr>shape = [1, 1, 1], data = [3]\<rparr>] 0 (Some 1))
       = [\<lparr>shape = [1, 1, 1], data = [3]\<rparr>, \<lparr>shape = [1, 1, 1], data = [3]\<rparr>]"
  using omitted_second_array_is_copy
    [where st = "[Plain \<lparr>shape = [1, 1, 1], data = [2]\<rparr>, Plain \<lparr>shape = [1, 1, 1], data = [2]\<rparr>]"
       and ?r1.0 = 0 and ?r2.0 = 1
       and sn = "[\<lparr>shape = [1, 1, 1], data = [3]\<rparr>, \<lparr>shape = [1, 1, 1], data = [3]\<rparr>]"
       and ?q1.0 = 0 and ?q2.0 = 1 and delta_f = None and window = "\<lambda>n. replicate n 1"]
  by simp

subsection \<open>The entries of the combined sample counts\<close>

lemma combine3:
  assumes "shape n1 = [b,t,f]" "shape n2 = [b,t,f]"
  shows "combine_nsamples n1 (Some n2) =
     Inr \<lparr>shape = [b,b,t,f],
          data = map (\<lambda>idx. sqrt (data n1 ! offset [Suc 0,b,t,f] idx * data n2 ! offset [b,Suc 0,t,f] idx))
                   (indices [b,b,t,f])\<rparr>"
  using assms
  by (simp add: combine_nsamples_def getitem_newaxis_def ebind_def cross3 map_nd_def
      del: indices.simps offset.simps)

lemma combine4:
  assumes "shape n1 = [p,b,t,f]" "shape n2 = [p,b,t,f]"
  shows "combine_nsamples n1 (Some n2) =
     Inr \<lparr>shape = [p,b,b,t,f],
          data = map (\<lambda>idx. sqrt (data n1 ! offset [p,Suc 0,b,t,f] idx * data n2 ! offset [p,b,Suc 0,t,f] idx))
                   (indices [p,b,b,t,f])\<rparr>"
  using assms
  by (simp add: combine_nsamples_def getitem_newaxis_def ebind_def cross4 map_nd_def
      del: indices.simps offset.simps)

lemma getitem_in_set:
  "wf a \<Longrightarrow> list_all2 (<) idx (shape a) \<Longrightarrow> getitem a idx \<in> set (data a)"
  using offset_indices_nth[of idx "shape a"] by (simp add: wf_def getitem_def)

text \<open>
  C4, as amended. For a rank-3 array \<open>n\<close> of shape \<open>(b, t, f)\<close> with no negative entry,
  \<open>combine_nsamples(n, n)\<close>, and the call that omits the second argument, is the array
  of shape \<open>(b, b, t, f)\<close> whose entry \<open>[i, j, \<tau>, k]\<close> is the geometric mean of
  \<open>n[j, \<tau>, k]\<close> and \<open>n[i, \<tau>, k]\<close>; its entries on the baseline diagonal,
  \<open>[i, i, \<tau>, k]\<close>, are the entries \<open>n[i, \<tau>, k]\<close>. The same holds for a rank-4 array of
  shape \<open>(p, b, t, f)\<close>, with the polarization index in front.
\<close>

theorem combine_nsamples_pairs:
  assumes "wf n" "list_all (\<lambda>x. 0 \<le> x) (data n)" "shape n = [b, t, f]"
    and "wf n'" "list_all (\<lambda>x. 0 \<le> x) (data n')" "shape n' = [p, b', t', f']"
  shows "(\<exists>out. combine_nsamples n None = Inr out \<and> combine_nsamples n (Some n) = Inr out
            \<and> shape out = [b, b, t, f]
            \<and> (\<forall>i<b. \<forall>j<b. \<forall>\<tau><t. \<forall>k<f.
                 getitem out [i, j, \<tau>, k] = sqrt (getitem n [j, \<tau>, k] * getitem n [i, \<tau>, k]))
            \<and> (\<forall>i<b. \<forall>\<tau><t. \<forall>k<f. getitem out [i, i, \<tau>, k] = getitem n [i, \<tau>, k]))
       \<and> (\<exists>out. combine_nsamples n' None = Inr out \<and> combine_nsamples n' (Some n') = Inr out
            \<and> shape out = [p, b', b', t', f']
            \<and> (\<forall>\<pi><p. \<forall>i<b'. \<forall>j<b'. \<forall>\<tau><t'. \<forall>k<f'.
                 getitem out [\<pi>, i, j, \<tau>, k] =
                   sqrt (getitem n' [\<pi>, j, \<tau>, k] * getitem n' [\<pi>, i, \<tau>, k]))
            \<and> (\<forall>\<pi><p. \<forall>i<b'. \<forall>\<tau><t'. \<forall>k<f'.
                 getitem out [\<pi>, i, i, \<tau>, k] = getitem n' [\<pi>, i, \<tau>, k]))"
proof (rule conjI)
  have none: "combine_nsamples m None = combine_nsamples m (Some m)" for m :: "real ndarray"
    by (simp add: combine_nsamples_def copy_def)
  let ?out = "\<lparr>shape = [b,b,t,f],
          data = map (\<lambda>idx. sqrt (data n ! offset [Suc 0,b,t,f] idx * data n ! offset [b,Suc 0,t,f] idx))
                   (indices [b,b,t,f])\<rparr>"
  have e: "getitem ?out [i, j, \<tau>, k] = sqrt (getitem n [j, \<tau>, k] * getitem n [i, \<tau>, k])"
    if "i < b" "j < b" "\<tau> < t" "k < f" for i j \<tau> k
    using cross3_nth[OF that, of "\<lambda>x y. sqrt (x * y)" "data n" "data n"] assms(3)
    by (simp add: getitem_def del: indices.simps offset.simps)
  have g: "0 \<le> getitem n [i, \<tau>, k]" if "i < b" "\<tau> < t" "k < f" for i \<tau> k
  proof -
    have "getitem n [i, \<tau>, k] \<in> set (data n)"
      using that assms(3) by (intro getitem_in_set[OF assms(1)]) simp
    with assms(2) show ?thesis by (simp add: list_all_iff)
  qed
  have "\<forall>i<b. \<forall>\<tau><t. \<forall>k<f. getitem ?out [i, i, \<tau>, k] = getitem n [i, \<tau>, k]"
    using e g by simp
  moreover have "\<forall>i<b. \<forall>j<b. \<forall>\<tau><t. \<forall>k<f.
      getitem ?out [i, j, \<tau>, k] = sqrt (getitem n [j, \<tau>, k] * getitem n [i, \<tau>, k])"
    using e by blast
  moreover have "combine_nsamples n (Some n) = Inr ?out" by (rule combine3[OF assms(3) assms(3)])
  ultimately show "\<exists>out. combine_nsamples n None = Inr out \<and> combine_nsamples n (Some n) = Inr out
            \<and> shape out = [b, b, t, f]
            \<and> (\<forall>i<b. \<forall>j<b. \<forall>\<tau><t. \<forall>k<f.
                 getitem out [i, j, \<tau>, k] = sqrt (getitem n [j, \<tau>, k] * getitem n [i, \<tau>, k]))
            \<and> (\<forall>i<b. \<forall>\<tau><t. \<forall>k<f. getitem out [i, i, \<tau>, k] = getitem n [i, \<tau>, k])"
    by (intro exI[of _ ?out]) (simp add: none)
next
  have none: "combine_nsamples m None = combine_nsamples m (Some m)" for m :: "real ndarray"
    by (simp add: combine_nsamples_def copy_def)
  let ?out = "\<lparr>shape = [p,b',b',t',f'],
          data = map (\<lambda>idx. sqrt (data n' ! offset [p,Suc 0,b',t',f'] idx * data n' ! offset [p,b',Suc 0,t',f'] idx))
                   (indices [p,b',b',t',f'])\<rparr>"
  have e: "getitem ?out [\<pi>, i, j, \<tau>, k] = sqrt (getitem n' [\<pi>, j, \<tau>, k] * getitem n' [\<pi>, i, \<tau>, k])"
    if "\<pi> < p" "i < b'" "j < b'" "\<tau> < t'" "k < f'" for \<pi> i j \<tau> k
    using cross4_nth[OF that, of "\<lambda>x y. sqrt (x * y)" "data n'" "data n'"] assms(6)
    by (simp add: getitem_def del: indices.simps offset.simps)
  have g: "0 \<le> getitem n' [\<pi>, i, \<tau>, k]" if "\<pi> < p" "i < b'" "\<tau> < t'" "k < f'" for \<pi> i \<tau> k
  proof -
    have "getitem n' [\<pi>, i, \<tau>, k] \<in> set (data n')"
      using that assms(6) by (intro getitem_in_set[OF assms(4)]) simp
    with assms(5) show ?thesis by (simp add: list_all_iff)
  qed
  have "\<forall>\<pi><p. \<forall>i<b'. \<forall>\<tau><t'. \<forall>k<f'. getitem ?out [\<pi>, i, i, \<tau>, k] = getitem n' [\<pi>, i, \<tau>, k]"
    using e g by simp
  moreover have "\<forall>\<pi><p. \<forall>i<b'. \<forall>j<b'. \<forall>\<tau><t'. \<forall>k<f'.
      getitem ?out [\<pi>, i, j, \<tau>, k] = sqrt (getitem n' [\<pi>, j, \<tau>, k] * getitem n' [\<pi>, i, \<tau>, k])"
    using e by blast
  moreover have "combine_nsamples n' (Some n') = Inr ?out" by (rule combine4[OF assms(6) assms(6)])
  ultimately show "\<exists>out. combine_nsamples n' None = Inr out \<and> combine_nsamples n' (Some n') = Inr out
            \<and> shape out = [p, b', b', t', f']
            \<and> (\<forall>\<pi><p. \<forall>i<b'. \<forall>j<b'. \<forall>\<tau><t'. \<forall>k<f'.
                 getitem out [\<pi>, i, j, \<tau>, k] =
                   sqrt (getitem n' [\<pi>, j, \<tau>, k] * getitem n' [\<pi>, i, \<tau>, k]))
            \<and> (\<forall>\<pi><p. \<forall>i<b'. \<forall>\<tau><t'. \<forall>k<f'.
                 getitem out [\<pi>, i, i, \<tau>, k] = getitem n' [\<pi>, i, \<tau>, k])"
    by (intro exI[of _ ?out]) (simp add: none)
qed

theorem combine_nsamples_pairs_witness:
  "wf \<lparr>shape = [2, 1, 1], data = [1, 4 :: real]\<rparr>
   \<and> list_all (\<lambda>x. 0 \<le> x) (data \<lparr>shape = [2, 1, 1], data = [1, 4 :: real]\<rparr>)
   \<and> shape \<lparr>shape = [2, 1, 1], data = [1, 4 :: real]\<rparr> = [2, 1, 1]
   \<and> wf \<lparr>shape = [1, 2, 1, 1], data = [9, 4 :: real]\<rparr>
   \<and> list_all (\<lambda>x. 0 \<le> x) (data \<lparr>shape = [1, 2, 1, 1], data = [9, 4 :: real]\<rparr>)
   \<and> shape \<lparr>shape = [1, 2, 1, 1], data = [9, 4 :: real]\<rparr> = [1, 2, 1, 1]
   \<and> (\<exists>out. combine_nsamples \<lparr>shape = [2, 1, 1], data = [1, 4]\<rparr> None = Inr out
          \<and> shape out = [2, 2, 1, 1]
          \<and> getitem out [1, 1, 0, 0] = getitem \<lparr>shape = [2, 1, 1], data = [1, 4]\<rparr> [1, 0, 0])
   \<and> (\<exists>out. combine_nsamples \<lparr>shape = [1, 2, 1, 1], data = [9, 4]\<rparr> None = Inr out
          \<and> shape out = [1, 2, 2, 1, 1]
          \<and> getitem out [0, 1, 1, 0, 0] = getitem \<lparr>shape = [1, 2, 1, 1], data = [9, 4]\<rparr> [0, 1, 0, 0])"
proof -
  have h: "wf \<lparr>shape = [2, 1, 1], data = [1, 4 :: real]\<rparr>"
    "list_all (\<lambda>x. 0 \<le> x) (data \<lparr>shape = [2, 1, 1], data = [1, 4 :: real]\<rparr>)"
    "shape \<lparr>shape = [2, 1, 1], data = [1, 4 :: real]\<rparr> = [2, 1, 1]"
    "wf \<lparr>shape = [1, 2, 1, 1], data = [9, 4 :: real]\<rparr>"
    "list_all (\<lambda>x. 0 \<le> x) (data \<lparr>shape = [1, 2, 1, 1], data = [9, 4 :: real]\<rparr>)"
    "shape \<lparr>shape = [1, 2, 1, 1], data = [9, 4 :: real]\<rparr> = [1, 2, 1, 1]"
    by (simp_all add: wf_def)
  from combine_nsamples_pairs[OF h] h show ?thesis
    by (elim conjE exE) (intro conjI exI, (assumption | simp)+)
qed

text \<open>
  The claim as it is written fails on two baselines with 1 and 4 samples: the result has
  shape \<open>(2, 2, 1, 1)\<close> and holds 1, 2, 2, 4, which is not the input.
\<close>

theorem combine_nsamples_counterexample:
  "combine_nsamples \<lparr>shape = [2, 1, 1], data = [1, 4]\<rparr> (Some \<lparr>shape = [2, 1, 1], data = [1, 4]\<rparr>) =
     Inr \<lparr>shape = [2, 2, 1, 1], data = [1, 2, 2, 4]\<rparr>
   \<and> combine_nsamples \<lparr>shape = [2, 1, 1], data = [1, 4]\<rparr> (Some \<lparr>shape = [2, 1, 1], data = [1, 4]\<rparr>) \<noteq>
     Inr \<lparr>shape = [2, 1, 1], data = [1, 4]\<rparr>"
  by (simp add: combine_nsamples_def getitem_newaxis_def ebind_def broadcast2_def
      broadcast_shapes_def pad_shape_def map_nd_def upt_rec)

subsection \<open>The noise array\<close>

lemma noise_norm:
  "(Re (complex_of_real p * (complex_of_real a + \<i> * complex_of_real b) / complex_of_real (sqrt 2)))\<^sup>2
   + (Im (complex_of_real p * (complex_of_real a + \<i> * complex_of_real b) / complex_of_real (sqrt 2)))\<^sup>2
   = p\<^sup>2 * (a\<^sup>2 + b\<^sup>2) / 2"
  by (simp add: power_mult_distrib power_divide algebra_simps)

text \<open>
  C8. With \<open>g_re\<close> the first and \<open>g_im\<close> the second array of standard-normal draws that
  the random source gives for the shape of \<open>p\<close>, \<open>generate_noise(p)\<close> is
  \<open>p * (g_re + i * g_im) / sqrt 2\<close> entry by entry, an array of the shape of \<open>p\<close> (with
  the unit of \<open>p\<close> when \<open>p\<close> is a quantity). For every entry, real part squared plus
  imaginary part squared is \<open>p^2 * (g_re^2 + g_im^2) / 2\<close>: with two draws of variance 1
  this has the mean \<open>p^2\<close>, not \<open>2 * p^2\<close>. The mean itself is not part of the model.
\<close>

theorem generate_noise_spec:
  assumes "random_normal (shape (values_of x)) rng = (g_re, rng1)"
    and "random_normal (shape (values_of x)) rng1 = (g_im, rng2)"
    and "wf (values_of x)"
  shows "generate_noise x rng =
           (Inr (case x of Plain _ \<Rightarrow> Plain (spec_noise (values_of x) g_re g_im)
                 | Quantity _ u \<Rightarrow> Quantity (spec_noise (values_of x) g_re g_im) u), rng2)
       \<and> shape (spec_noise (values_of x) g_re g_im) = shape (values_of x)
       \<and> (\<forall>k<prod_list (shape (values_of x)).
            (Re (data (spec_noise (values_of x) g_re g_im) ! k))\<^sup>2
            + (Im (data (spec_noise (values_of x) g_re g_im) ! k))\<^sup>2
            = (data (values_of x) ! k)\<^sup>2 * ((data g_re ! k)\<^sup>2 + (data g_im ! k)\<^sup>2) / 2)"
proof -
  obtain k0 draws where rng: "rng = (k0, draws)" by (cases rng)
  let ?s = "shape (values_of x)"
  let ?N = "prod_list ?s"
  have gre: "g_re = \<lparr>shape = ?s, data = map draws [k0..<k0 + ?N]\<rparr>" "rng1 = (k0 + ?N, draws)"
    using assms(1) by (auto simp: random_normal_def rng)
  have gim: "g_im = \<lparr>shape = ?s, data = map draws [k0 + ?N..<k0 + ?N + ?N]\<rparr>" "rng2 = (k0 + ?N + ?N, draws)"
    using assms(2) by (auto simp: random_normal_def gre)
  have b1: "broadcast2 (+) (map_nd (\<lambda>x. 1 * complex_of_real x) g_re) (map_nd (\<lambda>x. \<i> * complex_of_real x) g_im)
     = Inr \<lparr>shape = ?s, data = map (\<lambda>q. data (map_nd (\<lambda>x. 1 * complex_of_real x) g_re) ! q + data (map_nd (\<lambda>x. \<i> * complex_of_real x) g_im) ! q) [0..<?N]\<rparr>"
    by (rule broadcast2_same_shape) (simp_all add: map_nd_def gre gim)
  have b2: "broadcast2 (*) (map_nd complex_of_real (values_of x)) \<lparr>shape = ?s, data = d\<rparr>
     = Inr \<lparr>shape = ?s, data = map (\<lambda>q. data (map_nd complex_of_real (values_of x)) ! q * d ! q) [0..<?N]\<rparr>" for d
    using broadcast2_same_shape[of "map_nd complex_of_real (values_of x)" ?s "\<lparr>shape = ?s, data = d\<rparr>" "(*)"]
    by (simp add: map_nd_def)
  have run: "generate_noise x rng =
           (Inr (case x of Plain _ \<Rightarrow> Plain (spec_noise (values_of x) g_re g_im)
                 | Quantity _ u \<Rightarrow> Quantity (spec_noise (values_of x) g_re g_im) u), rng2)"
    unfolding generate_noise_def Let_def assms(1) assms(2) prod.case b1 ebind_def sum.case b2 spec_noise_def
    using assms(3) by (cases x; simp add: values_of_def map_nd_def gre gim wf_def cong: map_cong)
  have nrm: "\<forall>k<?N. (Re (data (spec_noise (values_of x) g_re g_im) ! k))\<^sup>2
            + (Im (data (spec_noise (values_of x) g_re g_im) ! k))\<^sup>2
            = (data (values_of x) ! k)\<^sup>2 * ((data g_re ! k)\<^sup>2 + (data g_im ! k)\<^sup>2) / 2"
  proof (intro allI impI)
    fix k assume k: "k < ?N"
    have d: "data (spec_noise (values_of x) g_re g_im) ! k
        = complex_of_real (data (values_of x) ! k)
          * (complex_of_real (data g_re ! k) + \<i> * complex_of_real (data g_im ! k))
          / complex_of_real (sqrt 2)"
      using k by (simp add: spec_noise_def)
    show "(Re (data (spec_noise (values_of x) g_re g_im) ! k))\<^sup>2
            + (Im (data (spec_noise (values_of x) g_re g_im) ! k))\<^sup>2
            = (data (values_of x) ! k)\<^sup>2 * ((data g_re ! k)\<^sup>2 + (data g_im ! k)\<^sup>2) / 2"
      by (simp only: d noise_norm)
  qed
  have shp: "shape (spec_noise (values_of x) g_re g_im) = shape (values_of x)"
    by (simp add: spec_noise_def)
  from run shp nrm show ?thesis by (intro conjI)
qed

theorem generate_noise_spec_witness:
  "random_normal (shape (values_of (Plain \<lparr>shape = [2], data = [3, 5]\<rparr>))) (0, real)
     = (\<lparr>shape = [2], data = [0, 1]\<rparr>, (2, real))
   \<and> random_normal (shape (values_of (Plain \<lparr>shape = [2], data = [3, 5]\<rparr>))) (2, real)
     = (\<lparr>shape = [2], data = [2, 3]\<rparr>, (4, real))
   \<and> wf (values_of (Plain \<lparr>shape = [2], data = [3, 5 :: real]\<rparr>))
   \<and> generate_noise (Plain \<lparr>shape = [2], data = [3, 5]\<rparr>) (0, real)
     = (Inr (Plain (spec_noise \<lparr>shape = [2], data = [3, 5]\<rparr> \<lparr>shape = [2], data = [0, 1]\<rparr>
                      \<lparr>shape = [2], data = [2, 3]\<rparr>)), (4, real))"
proof -
  have h1: "random_normal (shape (values_of (Plain \<lparr>shape = [2], data = [3, 5]\<rparr>))) (0, real)
     = (\<lparr>shape = [2], data = [0, 1]\<rparr>, (2, real))"
    by (simp add: random_normal_def values_of_def upt_rec)
  have h2: "random_normal (shape (values_of (Plain \<lparr>shape = [2], data = [3, 5]\<rparr>))) (2, real)
     = (\<lparr>shape = [2], data = [2, 3]\<rparr>, (4, real))"
    by (simp add: random_normal_def values_of_def upt_rec)
  have h3: "wf (values_of (Plain \<lparr>shape = [2], data = [3, 5 :: real]\<rparr>))"
    by (simp add: wf_def values_of_def)
  from generate_noise_spec[OF h1 h2 h3] h1 h2 h3 show ?thesis
    by (simp add: values_of_def)
qed

subsection \<open>The mask off the diagonal\<close>

lemma concat_if_singleton:
  "concat (map (\<lambda>j. if P j then [f j] else []) ys) = map f (filter P ys)"
  by (induction ys) auto

lemma offdiag_alt:
  "offdiag n = concat (map (\<lambda>i. map (Pair i) (filter (\<lambda>j. i \<noteq> j) [0..<n])) [0..<n])"
  by (simp add: offdiag_def concat_if_singleton)

lemma offdiag_set: "(i, j) \<in> set (offdiag n) \<longleftrightarrow> i < n \<and> j < n \<and> i \<noteq> j"
  by (auto simp: offdiag_def)

lemma filter_eq_upt: "filter ((=) i) [0..<n] = (if i < n then [i] else [])"
  by (induction n) auto

lemma length_filter_neq: "i < n \<Longrightarrow> length (filter (\<lambda>j. i \<noteq> j) [0..<n]) = n - 1"
  using sum_length_filter_compl[of "(=) i" "[0..<n]"] by (simp add: filter_eq_upt)

lemma length_offdiag: "length (offdiag n) = n * (n - 1)"
proof -
  have "\<forall>xs\<in>set (map (\<lambda>i. map (Pair i) (filter (\<lambda>j. i \<noteq> j) [0..<n])) [0..<n]). length xs = n - 1"
    by (auto simp: length_filter_neq)
  from length_concat_uniform[OF this] show ?thesis by (simp add: offdiag_alt)
qed

lemma mask_eq:
  "np_logical_not (np_diag (np_ones n)) = \<lparr>shape = [n, n], data = concat (map (\<lambda>i. map (\<lambda>j. i \<noteq> j) [0..<n]) [0..<n])\<rparr>"
proof -
  have aux: "map (\<lambda>x. map (\<lambda>xa. x = xa \<longrightarrow> \<not> replicate n True ! xa) [0..<n]) [0..<n]
      = map (\<lambda>i. map (\<lambda>j. i \<noteq> j) [0..<n]) [0..<n]"
    by (rule map_cong[OF refl], rule map_cong[OF refl]) auto
  show ?thesis
    by (simp add: np_logical_not_def np_diag_def np_ones_def map_nd_def Let_def map_concat comp_def aux)
qed

lemma mask_length: "length (concat (map (\<lambda>i. map (\<lambda>j. i \<noteq> j) [0..<n]) [0..<n])) = n * n"
proof -
  have "\<forall>xs\<in>set (map (\<lambda>i. map (\<lambda>j. i \<noteq> j) [0..<n]) [0..<n]). length xs = n" by auto
  from length_concat_uniform[OF this] show ?thesis by simp
qed

lemma mask_nth:
  assumes "i < n" "j < n"
  shows "concat (map (\<lambda>i. map (\<lambda>j. i \<noteq> j) [0..<n]) [0..<n]) ! (i * n + j) = (i \<noteq> j)"
proof -
  have "\<forall>xs\<in>set (map (\<lambda>i. map (\<lambda>j. i \<noteq> j) [0..<n]) [0..<n]). length xs = n" by auto
  from concat_nth_uniform[OF this, of i j] assms show ?thesis by simp
qed

lemma mask_count:
  "length (filter id (concat (map (\<lambda>i. map (\<lambda>j. i \<noteq> j) [0..<n]) [0..<n]))) = n * (n - 1)"
proof -
  have "\<forall>xs\<in>set (map (\<lambda>i. filter id (map (\<lambda>j. i \<noteq> j) [0..<n])) [0..<n]). length xs = n - 1"
    by (auto simp: filter_map comp_def length_filter_neq)
  from length_concat_uniform[OF this] show ?thesis by (simp add: filter_concat comp_def)
qed

lemma mask_true_positions:
  "filter (\<lambda>q. concat (map (\<lambda>i. map (\<lambda>j. i \<noteq> j) [0..<n]) [0..<n]) ! q) [0..<n * n]
   = map (\<lambda>(i, j). i * n + j) (offdiag n)"
proof -
  let ?M = "concat (map (\<lambda>i. map (\<lambda>j. i \<noteq> j) [0..<n]) [0..<n])"
  have "filter (\<lambda>q. ?M ! q) [0..<n * n]
      = filter (\<lambda>q. ?M ! q) (concat (map (\<lambda>i. map (\<lambda>j. i * n + j) [0..<n]) [0..<n]))"
    by (simp only: concat_upt_blocks)
  also have "\<dots> = concat (map (\<lambda>i. map (\<lambda>j. i * n + j) (filter (\<lambda>j. ?M ! (i * n + j)) [0..<n])) [0..<n])"
    by (simp add: filter_concat filter_map comp_def)
  also have "\<dots> = concat (map (\<lambda>i. map (\<lambda>j. i * n + j) (filter (\<lambda>j. i \<noteq> j) [0..<n])) [0..<n])"
  proof (rule arg_cong[where f = concat], rule map_cong[OF refl])
    fix i assume "i \<in> set [0..<n]"
    then have i: "i < n" by simp
    have "filter (\<lambda>j. ?M ! (i * n + j)) [0..<n] = filter (\<lambda>j. i \<noteq> j) [0..<n]"
      by (rule filter_cong[OF refl]) (simp add: mask_nth[OF i])
    then show "map (\<lambda>j. i * n + j) (filter (\<lambda>j. ?M ! (i * n + j)) [0..<n])
             = map (\<lambda>j. i * n + j) (filter (\<lambda>j. i \<noteq> j) [0..<n])" by simp
  qed
  also have "\<dots> = map (\<lambda>(i, j). i * n + j) (offdiag n)"
    by (simp add: offdiag_alt map_concat comp_def)
  finally show ?thesis .
qed

lemma mask_blocks_offdiag:
  "mask_blocks (concat (map (\<lambda>i. map (\<lambda>j. i \<noteq> j) [0..<n]) [0..<n])) m xs
   = concat (map (\<lambda>(i, j). take m (drop ((i * n + j) * m) xs)) (offdiag n))"
  by (simp add: mask_blocks_def mask_length mask_true_positions comp_def case_prod_unfold)

lemma remove_auto4:
  assumes "wf a" "shape a = [n, n, t, f]"
  shows "remove_auto_correlations a =
     Inr \<lparr>shape = [n * (n - 1), t, f],
          data = concat (map (\<lambda>(i, j). block a [i, j]) (offdiag n))\<rparr>"
proof -
  have len: "length (data a) = n * n * (t * f)" using assms by (simp add: wf_def mult.assoc)
  have blk: "take (t * f) (drop ((i * n + j) * (t * f)) (data a)) = block a [i, j]"
    if "(i, j) \<in> set (offdiag n)" for i j
    using that assms(2) by (auto simp: block_def offdiag_set Let_def)
  have "concat (map (\<lambda>(i, j). take (t * f) (drop ((i * n + j) * (t * f)) (data a))) (offdiag n))
      = concat (map (\<lambda>(i, j). block a [i, j]) (offdiag n))"
    by (rule arg_cong[where f = concat], rule map_cong[OF refl]) (auto simp: blk)
  then show ?thesis
    using assms(2) len
    by (simp add: remove_auto_correlations_def getitem_mask_def mask_eq mask_count
        mask_blocks_offdiag Let_def)
qed

lemma take_drop_inner:
  "q + m \<le> sz \<Longrightarrow> take m (drop q (take sz (drop o' xs))) = take m (drop (o' + q) xs)"
  by (simp add: drop_take min_def add.commute)

lemma remove_auto5:
  assumes "wf a" "shape a = [p, n, n, t, f]"
  shows "remove_auto_correlations a =
     Inr \<lparr>shape = [p, n * (n - 1), t, f],
          data = concat (map (\<lambda>\<pi>. concat (map (\<lambda>(i, j). block a [\<pi>, i, j]) (offdiag n))) [0..<p])\<rparr>"
proof -
  let ?m = "t * f"
  let ?sz = "n * n * ?m"
  have blk: "take ?m (drop ((i * n + j) * ?m) (take ?sz (drop (\<pi> * ?sz) (data a)))) = block a [\<pi>, i, j]"
    if "(i, j) \<in> set (offdiag n)" "\<pi> \<in> set [0..<p]" for i j \<pi>
  proof -
    from that have ij: "i < n" "j < n" "\<pi> < p" by (auto simp: offdiag_set)
    have "i * n + j < n * n"
    proof -
      have "i * n + j < i * n + n" using ij by simp
      also have "\<dots> = Suc i * n" by simp
      also have "\<dots> \<le> n * n" using ij(1) by (metis Suc_leI mult_le_mono1)
      finally show ?thesis .
    qed
    then have "Suc (i * n + j) * ?m \<le> ?sz" by (metis Suc_leI mult_le_mono1)
    then have le: "(i * n + j) * ?m + ?m \<le> ?sz" by (simp add: add.commute)
    have o: "offset [p, n, n] [\<pi>, i, j] = (\<pi> * n + i) * n + j"
      using ij by (auto simp: algebra_simps)
    have "\<pi> * ?sz + (i * n + j) * ?m = ((\<pi> * n + i) * n + j) * ?m" by (simp add: algebra_simps)
    with take_drop_inner[OF le, of "\<pi> * ?sz" "data a"] o assms(2)
    show ?thesis by (simp add: block_def Let_def)
  qed
  have "concat (map (\<lambda>\<pi>. concat (map (\<lambda>(i, j). take ?m (drop ((i * n + j) * ?m) (take ?sz (drop (\<pi> * ?sz) (data a))))) (offdiag n))) [0..<p])
      = concat (map (\<lambda>\<pi>. concat (map (\<lambda>(i, j). block a [\<pi>, i, j]) (offdiag n))) [0..<p])"
    apply (rule arg_cong[where f = concat], rule map_cong[OF refl])
    apply (rule arg_cong[where f = concat], rule map_cong[OF refl])
    using blk by auto
  then show ?thesis
    using assms(2)
    by (simp add: remove_auto_correlations_def getitem_mask_def mask_eq mask_count
        mask_blocks_offdiag Let_def)
qed

text \<open>
  C3. For a rank-4 array of shape \<open>(n, n, t, f)\<close>, \<open>remove_auto_correlations\<close> returns
  the array of shape \<open>(n * (n - 1), t, f)\<close> that holds the sub-arrays \<open>a[i, j]\<close> for the
  pairs \<open>i \<noteq> j\<close> in row-major order (\<open>offdiag n\<close>: \<open>i\<close> ascending, and for each \<open>i\<close> the
  \<open>j \<noteq> i\<close> ascending); for a rank-5 array of shape \<open>(p, n, n, t, f)\<close> it does so for
  every polarization. There are \<open>n * (n - 1)\<close> such pairs and no pair \<open>(i, i)\<close> is among
  them. An array of another rank fails with the \<open>ValueError\<close> on the shape. On the
  \<open>(3, 3, 1, 1)\<close> array holding 0 to 8 the result holds 1, 2, 3, 5, 6, 7.
\<close>

theorem remove_auto_correlations_spec:
  assumes "wf a" "shape a = [n, n, t, f]" "wf a'" "shape a' = [p, n', n', t', f']"
    and "length (shape c) \<noteq> 4" "length (shape c) \<noteq> 5"
  shows "remove_auto_correlations a =
           Inr \<lparr>shape = [n * (n - 1), t, f],
                data = concat (map (\<lambda>(i, j). block a [i, j]) (offdiag n))\<rparr>
       \<and> remove_auto_correlations a' =
           Inr \<lparr>shape = [p, n' * (n' - 1), t', f'],
                data = concat (map (\<lambda>\<pi>. concat (map (\<lambda>(i, j). block a' [\<pi>, i, j]) (offdiag n'))) [0..<p])\<rparr>
       \<and> length (offdiag n) = n * (n - 1)
       \<and> (\<forall>i. (i, i) \<notin> set (offdiag n))
       \<and> remove_auto_correlations c =
           Inl (ValueError ''Input data_array must be of type (Npols, Nbls, Nbls, Ntimes, Nfreqs) or (Nbls, Nbls, Ntimes, Nfreqs) but data_array has shape '')
       \<and> remove_auto_correlations \<lparr>shape = [3, 3, 1, 1], data = [0, 1, 2, 3, 4, 5, 6, 7, 8 :: nat]\<rparr> =
           Inr \<lparr>shape = [6, 1, 1], data = [1, 2, 3, 5, 6, 7]\<rparr>"
proof -
  have ex: "remove_auto_correlations \<lparr>shape = [3, 3, 1, 1], data = [0, 1, 2, 3, 4, 5, 6, 7, 8 :: nat]\<rparr> =
           Inr \<lparr>shape = [6, 1, 1], data = [1, 2, 3, 5, 6, 7]\<rparr>"
    by code_simp
  show ?thesis
    using remove_auto4[OF assms(1,2)] remove_auto5[OF assms(3,4)] assms(5,6) ex
    by (simp add: length_offdiag offdiag_set remove_auto_correlations_def)
qed

theorem remove_auto_correlations_spec_witness:
  "wf \<lparr>shape = [2, 2, 1, 1], data = [10, 11, 12, 13 :: nat]\<rparr>
   \<and> shape \<lparr>shape = [2, 2, 1, 1], data = [10, 11, 12, 13 :: nat]\<rparr> = [2, 2, 1, 1]
   \<and> wf \<lparr>shape = [1, 2, 2, 1, 1], data = [10, 11, 12, 13 :: nat]\<rparr>
   \<and> shape \<lparr>shape = [1, 2, 2, 1, 1], data = [10, 11, 12, 13 :: nat]\<rparr> = [1, 2, 2, 1, 1]
   \<and> length (shape \<lparr>shape = [2, 1, 1], data = [10, 11 :: nat]\<rparr>) \<noteq> 4
   \<and> length (shape \<lparr>shape = [2, 1, 1], data = [10, 11 :: nat]\<rparr>) \<noteq> 5
   \<and> remove_auto_correlations \<lparr>shape = [2, 2, 1, 1], data = [10, 11, 12, 13 :: nat]\<rparr> =
         Inr \<lparr>shape = [2, 1, 1], data = [11, 12]\<rparr>
   \<and> remove_auto_correlations \<lparr>shape = [1, 2, 2, 1, 1], data = [10, 11, 12, 13 :: nat]\<rparr> =
         Inr \<lparr>shape = [1, 2, 1, 1], data = [11, 12]\<rparr>
   \<and> remove_auto_correlations \<lparr>shape = [2, 1, 1], data = [10, 11 :: nat]\<rparr> =
         Inl (ValueError ''Input data_array must be of type (Npols, Nbls, Nbls, Ntimes, Nfreqs) or (Nbls, Nbls, Ntimes, Nfreqs) but data_array has shape '')"
proof -
  have h: "wf \<lparr>shape = [2, 2, 1, 1], data = [10, 11, 12, 13 :: nat]\<rparr>"
    "shape \<lparr>shape = [2, 2, 1, 1], data = [10, 11, 12, 13 :: nat]\<rparr> = [2, 2, 1, 1]"
    "wf \<lparr>shape = [1, 2, 2, 1, 1], data = [10, 11, 12, 13 :: nat]\<rparr>"
    "shape \<lparr>shape = [1, 2, 2, 1, 1], data = [10, 11, 12, 13 :: nat]\<rparr> = [1, 2, 2, 1, 1]"
    "length (shape \<lparr>shape = [2, 1, 1], data = [10, 11 :: nat]\<rparr>) \<noteq> 4"
    "length (shape \<lparr>shape = [2, 1, 1], data = [10, 11 :: nat]\<rparr>) \<noteq> 5"
    by (simp_all add: wf_def)
  have o: "offdiag 2 = [(0, 1), (1, 0)]" by code_simp
  from remove_auto_correlations_spec[OF h] h show ?thesis
    by (simp add: o block_def)
qed

subsection \<open>The noise power\<close>

lemma broadcast2_vec_left:
  assumes "length w = n" "shape a = s @ [n]"
  shows "broadcast2 f \<lparr>shape = [n], data = w\<rparr> a =
         Inr \<lparr>shape = s @ [n], data = map (\<lambda>q. f (w ! (q mod n)) (data a ! q)) [0..<prod_list s * n]\<rparr>"
  using broadcast2_last_left[OF assms(2), of 0 f w] by simp

lemma np_diff_Cons:
  "2 \<le> length fs \<Longrightarrow> np_diff fs = (fs ! 1 - fs ! 0) # map (\<lambda>i. fs ! Suc i - fs ! i) [1..<length fs - 1]"
  by (simp add: np_diff_def upt_conv_Cons)

text \<open>
  On the inputs the docstring describes (\<open>freqs\<close> a frequency quantity of at least two
  frequencies, \<open>inttime\<close> a time quantity, \<open>trcvr\<close> a temperature quantity, and an
  \<open>nsamples\<close> array whose last axis has the length of \<open>freqs\<close>) the function returns the
  quantity in K of the shape of \<open>nsamples\<close> whose entries are \<open>T_sys / sqrt (channel_width
  * inttime * nsamples)\<close>, with \<open>T_sys = 180 * (nu / 0.18 GHz) ^ (- 2.55) + trcvr\<close> at the
  frequency of the entry, \<open>channel_width\<close> the first difference of \<open>freqs\<close> in 1/s, and
  \<open>inttime\<close> in seconds. Numbers are real numbers here, not floating-point numbers.
\<close>

lemma calculate_noise_power_spec:
  assumes "is_equivalent f_unit u_Hz" "is_equivalent t_unit u_s" "is_equivalent tr_unit u_K"
    and "2 \<le> length fs" "wf nsamples" "shape nsamples = s @ [length fs]"
  shows "calculate_noise_power nsamples (Quantity fs f_unit) (Quantity t t_unit) (Quantity tr tr_unit) =
     Inr (Quantity \<lparr>shape = shape nsamples,
           data = map (\<lambda>q. spec_noise_power
                             (spec_T_sys (fs ! (q mod length fs) * scale f_unit / 10 ^ 9) (tr * scale tr_unit))
                             ((fs ! 1 - fs ! 0) * scale f_unit) (t * scale t_unit) (data nsamples ! q))
                      [0..<prod_list (shape nsamples)]\<rparr> u_K)"
proof -
  have u: "is_equivalent f_unit u_GHz" "is_equivalent f_unit u_per_s"
    using assms(1) by (simp_all add: is_equivalent_def u_Hz_def u_GHz_def u_per_s_def mk_unit_def)
  have len: "length (data nsamples) = prod_list s * length fs" "0 < length fs"
    using assms(4,5,6) by (auto simp: wf_def)
  note b = broadcast2_vec_left[where s = s and n = "length fs" and f = "(/)"]
  show ?thesis
    using u assms(2,3,6) len
    by (simp add: calculate_noise_power_def np_diff_Cons[OF assms(4)] to_unit_def ebind_def Let_def b
        map_nd_def spec_noise_power_def spec_T_sys_def u_GHz_def u_per_s_def u_s_def u_K_def mk_unit_def
        mult.commute cong: map_cong)
qed

lemma calculate_noise_power_spec_instance:
  "is_equivalent u_GHz u_Hz \<and> is_equivalent u_s u_s \<and> is_equivalent u_K u_K
   \<and> 2 \<le> length [1, 2 :: real]
   \<and> wf \<lparr>shape = [1, 2], data = [4, 9 :: real]\<rparr>
   \<and> shape \<lparr>shape = [1, 2], data = [4, 9 :: real]\<rparr> = [1] @ [length [1, 2 :: real]]
   \<and> calculate_noise_power \<lparr>shape = [1, 2], data = [4, 9]\<rparr> (Quantity [1, 2] u_GHz)
        (Quantity 10 u_s) (Quantity 100 u_K) =
     Inr (Quantity \<lparr>shape = shape \<lparr>shape = [1, 2], data = [4, 9 :: real]\<rparr>,
           data = map (\<lambda>q. spec_noise_power
                             (spec_T_sys ([1, 2] ! (q mod length [1, 2 :: real]) * scale u_GHz / 10 ^ 9)
                                (100 * scale u_K))
                             (([1, 2] ! 1 - [1, 2] ! 0) * scale u_GHz) (10 * scale u_s)
                             (data \<lparr>shape = [1, 2], data = [4, 9 :: real]\<rparr> ! q))
                      [0..<prod_list (shape \<lparr>shape = [1, 2], data = [4, 9 :: real]\<rparr>)]\<rparr> u_K)"
proof -
  have h: "is_equivalent u_GHz u_Hz" "is_equivalent u_s u_s" "is_equivalent u_K u_K"
    "2 \<le> length [1, 2 :: real]"
    "wf \<lparr>shape = [1, 2], data = [4, 9 :: real]\<rparr>"
    "shape \<lparr>shape = [1, 2], data = [4, 9 :: real]\<rparr> = [1] @ [length [1, 2 :: real]]"
    by (simp_all add: is_equivalent_def u_GHz_def u_Hz_def mk_unit_def wf_def)
  note c = calculate_noise_power_spec[OF h, of 10 100]
  from h c show ?thesis by (intro conjI)
qed


subsection \<open>The store after an equality test\<close>

lemma eq_run_plain:
  assumes "l < length st" "r < length st"
    and "pvalue (st ! l) = QuantityValue v u" "pvalue (st ! r) = QuantityValue w u'"
    and "is_equivalent u u'" "shape v = shape w"
    and "snd (tols (st ! l)) = Plain a"
  shows "\<exists>res. UnitParameter_eq super_eq st l r = (Inr res,
     (st[l := (st ! l)\<lparr>tols := (fst (tols (st ! l)), Quantity a u)\<rparr>])
       [r := ((st[l := (st ! l)\<lparr>tols := (fst (tols (st ! l)), Quantity a u)\<rparr>]) ! r)
               \<lparr>pvalue := QuantityValue (map_nd (\<lambda>x. x * scale u' / scale u) w) u\<rparr>])"
proof -
  let ?st1 = "st[l := (st ! l)\<lparr>tols := (fst (tols (st ! l)), Quantity a u)\<rparr>]"
  have r1: "pvalue (?st1 ! r) = QuantityValue w u'"
    using assms(1,2,3,4) by (cases "l = r") simp_all
  show ?thesis
    unfolding UnitParameter_eq_def Let_def assms(3) assms(4) assms(7)
    apply (simp only: isinstance_class_of.simps if_False if_True not_True_eq_False pyvalue.case arg.case r1 assms(5) assms(6) refl)
    apply (simp split: prod.splits pyvalue.splits)
    using assms(1,2,3) apply (cases "l = r"; simp)
    done
qed

lemma eq_run_quantity:
  assumes "l < length st" "r < length st"
    and "pvalue (st ! l) = QuantityValue v u" "pvalue (st ! r) = QuantityValue w u'"
    and "is_equivalent u u'" "shape v = shape w"
    and "snd (tols (st ! l)) = Quantity a au"
  shows "\<exists>res. UnitParameter_eq super_eq st l r = (Inr res,
     st[r := (st ! r)\<lparr>pvalue := QuantityValue (map_nd (\<lambda>x. x * scale u' / scale u) w) u\<rparr>])"
proof -
  show ?thesis
    unfolding UnitParameter_eq_def Let_def assms(3) assms(4) assms(7)
    apply (simp only: isinstance_class_of.simps if_False if_True not_True_eq_False pyvalue.case arg.case assms(4) assms(5) assms(6) refl)
    apply (simp split: prod.splits pyvalue.splits)
    using assms(1,2,3) apply (cases "l = r"; simp)
    done
qed

lemma eq_same_shape:
  assumes "l < length st" "r < length st"
    and "pvalue (st ! l) = QuantityValue v u" "pvalue (st ! r) = QuantityValue w u'"
    and "is_equivalent u u'" "shape v = shape w"
  shows "\<exists>res st'. UnitParameter_eq super_eq st l r = (Inr res, st')
         \<and> pvalue (st' ! r) = QuantityValue (map_nd (\<lambda>x. x * scale u' / scale u) w) u
         \<and> (\<exists>a. pvalue (st' ! l) = QuantityValue a u)
         \<and> tols (st' ! l) = (case snd (tols (st ! l)) of
                               Plain a \<Rightarrow> (fst (tols (st ! l)), Quantity a u)
                             | Quantity _ _ \<Rightarrow> tols (st ! l))
         \<and> length st' = length st"
proof (cases "snd (tols (st ! l))")
  case (Plain a)
  from eq_run_plain[OF assms Plain, of super_eq] obtain res where
    run: "UnitParameter_eq super_eq st l r = (Inr res,
     (st[l := (st ! l)\<lparr>tols := (fst (tols (st ! l)), Quantity a u)\<rparr>])
       [r := ((st[l := (st ! l)\<lparr>tols := (fst (tols (st ! l)), Quantity a u)\<rparr>]) ! r)
               \<lparr>pvalue := QuantityValue (map_nd (\<lambda>x. x * scale u' / scale u) w) u\<rparr>])"
    by blast
  show ?thesis
    unfolding run using assms(1,2,3) Plain
    by (cases "l = r"; simp)
next
  case (Quantity a au)
  from eq_run_quantity[OF assms Quantity, of super_eq] obtain res where
    run: "UnitParameter_eq super_eq st l r = (Inr res,
     st[r := (st ! r)\<lparr>pvalue := QuantityValue (map_nd (\<lambda>x. x * scale u' / scale u) w) u\<rparr>])"
    by blast
  show ?thesis
    unfolding run using assms(1,2,3) Quantity
    by (cases "l = r"; simp)
qed


lemma eq_shapes_differ:
  assumes "l < length st" "r < length st"
    and "pvalue (st ! l) = QuantityValue v u" "pvalue (st ! r) = QuantityValue w u'"
    and "shape v \<noteq> shape w"
  shows "\<exists>st'. UnitParameter_eq super_eq st l r = (Inr False, st')
         \<and> pvalue (st' ! r) = pvalue (st ! r)
         \<and> length st' = length st"
proof -
  have lr: "l \<noteq> r" using assms(3,4,5) by auto
  show ?thesis
  proof (cases "snd (tols (st ! l))")
    case (Plain a)
    let ?st1 = "st[l := (st ! l)\<lparr>tols := (fst (tols (st ! l)), Quantity a u)\<rparr>]"
    have r1: "pvalue (?st1 ! r) = QuantityValue w u'" using assms(1,2,4) lr by simp
    show ?thesis
      unfolding UnitParameter_eq_def Let_def assms(3) assms(4) Plain
      apply (simp only: isinstance_class_of.simps if_False if_True not_True_eq_False pyvalue.case arg.case r1 assms(5) refl not_False_eq_True)
      using assms(1,2,4) lr apply simp
      done
  next
    case (Quantity a au)
    show ?thesis
      unfolding UnitParameter_eq_def Let_def assms(3) assms(4) Quantity
      apply (simp only: isinstance_class_of.simps if_False if_True not_True_eq_False pyvalue.case arg.case assms(4) assms(5) refl not_False_eq_True)
      using assms(4) apply simp
      done
  qed
qed

text \<open>
  C10, as amended. Comparing two \<open>UnitParameter\<close> objects changes them: when both hold
  quantity values of the same shape with equivalent units, then after \<open>left == right\<close>
  the value of the right operand is its old value converted to the unit of the left
  value, so the two value units are equal; and an absolute tolerance of the left operand
  that had no unit now carries the unit of the left value. When the two quantity values
  have different shapes, the comparison returns \<open>False\<close> and the value of the right
  operand is what it was.
\<close>

theorem UnitParameter_eq_converts_right:
  assumes "l < length st" "r < length st"
    and "pvalue (st ! l) = QuantityValue v u" "pvalue (st ! r) = QuantityValue w u'"
    and "is_equivalent u u'" "shape v = shape w"
    and "l' < length sd" "r' < length sd"
    and "pvalue (sd ! l') = QuantityValue vd ud" "pvalue (sd ! r') = QuantityValue wd ud'"
    and "shape vd \<noteq> shape wd"
  shows "(\<exists>res st'. UnitParameter_eq super_eq st l r = (Inr res, st')
         \<and> pvalue (st' ! r) = QuantityValue (map_nd (\<lambda>x. x * scale u' / scale u) w) u
         \<and> (\<exists>a. pvalue (st' ! l) = QuantityValue a u)
         \<and> tols (st' ! l) = (case snd (tols (st ! l)) of
                               Plain a \<Rightarrow> (fst (tols (st ! l)), Quantity a u)
                             | Quantity _ _ \<Rightarrow> tols (st ! l))
         \<and> length st' = length st)
       \<and> (\<exists>st'. UnitParameter_eq super_eq sd l' r' = (Inr False, st')
         \<and> pvalue (st' ! r') = pvalue (sd ! r')
         \<and> length st' = length sd)"
  using eq_same_shape[OF assms(1,2,3,4,5,6), of super_eq]
    eq_shapes_differ[OF assms(7,8,9,10,11), of super_eq]
  by (intro conjI)

theorem UnitParameter_eq_converts_right_witness:
  "(0::nat) < length
     [\<lparr>name = ''x'', pvalue = QuantityValue \<lparr>shape = [2], data = [1, 2]\<rparr> u_m,
       tols = (0, Plain 0), value_not_quantity = False, expected_units = Some u_m\<rparr>,
      \<lparr>name = ''x'', pvalue = QuantityValue \<lparr>shape = [2], data = [3, 4]\<rparr> u_km,
       tols = (0, Plain 0), value_not_quantity = False, expected_units = Some u_m\<rparr>]
   \<and> (1::nat) < length
     [\<lparr>name = ''x'', pvalue = QuantityValue \<lparr>shape = [2], data = [1, 2]\<rparr> u_m,
       tols = (0, Plain 0), value_not_quantity = False, expected_units = Some u_m\<rparr>,
      \<lparr>name = ''x'', pvalue = QuantityValue \<lparr>shape = [2], data = [3, 4]\<rparr> u_km,
       tols = (0, Plain 0), value_not_quantity = False, expected_units = Some u_m\<rparr>]
   \<and> pvalue ([\<lparr>name = ''x'', pvalue = QuantityValue \<lparr>shape = [2], data = [1, 2]\<rparr> u_m,
       tols = (0, Plain 0), value_not_quantity = False, expected_units = Some u_m\<rparr>,
      \<lparr>name = ''x'', pvalue = QuantityValue \<lparr>shape = [2], data = [3, 4]\<rparr> u_km,
       tols = (0, Plain 0), value_not_quantity = False, expected_units = Some u_m\<rparr>] ! 0) = QuantityValue \<lparr>shape = [2], data = [1, 2]\<rparr> u_m
   \<and> pvalue ([\<lparr>name = ''x'', pvalue = QuantityValue \<lparr>shape = [2], data = [1, 2]\<rparr> u_m,
       tols = (0, Plain 0), value_not_quantity = False, expected_units = Some u_m\<rparr>,
      \<lparr>name = ''x'', pvalue = QuantityValue \<lparr>shape = [2], data = [3, 4]\<rparr> u_km,
       tols = (0, Plain 0), value_not_quantity = False, expected_units = Some u_m\<rparr>] ! 1) = QuantityValue \<lparr>shape = [2], data = [3, 4]\<rparr> u_km
   \<and> is_equivalent u_m u_km
   \<and> shape \<lparr>shape = [2], data = [1, 2 :: real]\<rparr> = shape \<lparr>shape = [2], data = [3, 4 :: real]\<rparr>
   \<and> (0::nat) < length
     [\<lparr>name = ''x'', pvalue = QuantityValue \<lparr>shape = [2], data = [1, 2]\<rparr> u_m,
       tols = (0, Plain 0), value_not_quantity = False, expected_units = Some u_m\<rparr>,
      \<lparr>name = ''y'', pvalue = QuantityValue \<lparr>shape = [3], data = [5, 6, 7]\<rparr> u_km,
       tols = (0, Plain 0), value_not_quantity = False, expected_units = Some u_m\<rparr>]
   \<and> (1::nat) < length
     [\<lparr>name = ''x'', pvalue = QuantityValue \<lparr>shape = [2], data = [1, 2]\<rparr> u_m,
       tols = (0, Plain 0), value_not_quantity = False, expected_units = Some u_m\<rparr>,
      \<lparr>name = ''y'', pvalue = QuantityValue \<lparr>shape = [3], data = [5, 6, 7]\<rparr> u_km,
       tols = (0, Plain 0), value_not_quantity = False, expected_units = Some u_m\<rparr>]
   \<and> pvalue ([\<lparr>name = ''x'', pvalue = QuantityValue \<lparr>shape = [2], data = [1, 2]\<rparr> u_m,
       tols = (0, Plain 0), value_not_quantity = False, expected_units = Some u_m\<rparr>,
      \<lparr>name = ''y'', pvalue = QuantityValue \<lparr>shape = [3], data = [5, 6, 7]\<rparr> u_km,
       tols = (0, Plain 0), value_not_quantity = False, expected_units = Some u_m\<rparr>] ! 0) = QuantityValue \<lparr>shape = [2], data = [1, 2]\<rparr> u_m
   \<and> pvalue ([\<lparr>name = ''x'', pvalue = QuantityValue \<lparr>shape = [2], data = [1, 2]\<rparr> u_m,
       tols = (0, Plain 0), value_not_quantity = False, expected_units = Some u_m\<rparr>,
      \<lparr>name = ''y'', pvalue = QuantityValue \<lparr>shape = [3], data = [5, 6, 7]\<rparr> u_km,
       tols = (0, Plain 0), value_not_quantity = False, expected_units = Some u_m\<rparr>] ! 1) = QuantityValue \<lparr>shape = [3], data = [5, 6, 7]\<rparr> u_km
   \<and> shape \<lparr>shape = [2], data = [1, 2 :: real]\<rparr> \<noteq> shape \<lparr>shape = [3], data = [5, 6, 7 :: real]\<rparr>
   \<and> (\<exists>res st'. UnitParameter_eq (\<lambda>a b. False)
     [\<lparr>name = ''x'', pvalue = QuantityValue \<lparr>shape = [2], data = [1, 2]\<rparr> u_m,
       tols = (0, Plain 0), value_not_quantity = False, expected_units = Some u_m\<rparr>,
      \<lparr>name = ''x'', pvalue = QuantityValue \<lparr>shape = [2], data = [3, 4]\<rparr> u_km,
       tols = (0, Plain 0), value_not_quantity = False, expected_units = Some u_m\<rparr>] 0 1 = (Inr res, st')
         \<and> pvalue (st' ! 1) = QuantityValue (map_nd (\<lambda>x. x * scale u_km / scale u_m) \<lparr>shape = [2], data = [3, 4]\<rparr>) u_m
         \<and> (\<exists>a. pvalue (st' ! 0) = QuantityValue a u_m)
         \<and> tols (st' ! 0) = (case snd (tols ([\<lparr>name = ''x'', pvalue = QuantityValue \<lparr>shape = [2], data = [1, 2]\<rparr> u_m,
       tols = (0, Plain 0), value_not_quantity = False, expected_units = Some u_m\<rparr>,
      \<lparr>name = ''x'', pvalue = QuantityValue \<lparr>shape = [2], data = [3, 4]\<rparr> u_km,
       tols = (0, Plain 0), value_not_quantity = False, expected_units = Some u_m\<rparr>] ! 0)) of
                               Plain a \<Rightarrow> (fst (tols ([\<lparr>name = ''x'', pvalue = QuantityValue \<lparr>shape = [2], data = [1, 2]\<rparr> u_m,
       tols = (0, Plain 0), value_not_quantity = False, expected_units = Some u_m\<rparr>,
      \<lparr>name = ''x'', pvalue = QuantityValue \<lparr>shape = [2], data = [3, 4]\<rparr> u_km,
       tols = (0, Plain 0), value_not_quantity = False, expected_units = Some u_m\<rparr>] ! 0)), Quantity a u_m)
                             | Quantity _ _ \<Rightarrow> tols ([\<lparr>name = ''x'', pvalue = QuantityValue \<lparr>shape = [2], data = [1, 2]\<rparr> u_m,
       tols = (0, Plain 0), value_not_quantity = False, expected_units = Some u_m\<rparr>,
      \<lparr>name = ''x'', pvalue = QuantityValue \<lparr>shape = [2], data = [3, 4]\<rparr> u_km,
       tols = (0, Plain 0), value_not_quantity = False, expected_units = Some u_m\<rparr>] ! 0))
         \<and> length st' = length [\<lparr>name = ''x'', pvalue = QuantityValue \<lparr>shape = [2], data = [1, 2]\<rparr> u_m,
       tols = (0, Plain 0), value_not_quantity = False, expected_units = Some u_m\<rparr>,
      \<lparr>name = ''x'', pvalue = QuantityValue \<lparr>shape = [2], data = [3, 4]\<rparr> u_km,
       tols = (0, Plain 0), value_not_quantity = False, expected_units = Some u_m\<rparr>])
   \<and> (\<exists>st'. UnitParameter_eq (\<lambda>a b. False)
     [\<lparr>name = ''x'', pvalue = QuantityValue \<lparr>shape = [2], data = [1, 2]\<rparr> u_m,
       tols = (0, Plain 0), value_not_quantity = False, expected_units = Some u_m\<rparr>,
      \<lparr>name = ''y'', pvalue = QuantityValue \<lparr>shape = [3], data = [5, 6, 7]\<rparr> u_km,
       tols = (0, Plain 0), value_not_quantity = False, expected_units = Some u_m\<rparr>] 0 1 = (Inr False, st')
         \<and> pvalue (st' ! 1) = pvalue ([\<lparr>name = ''x'', pvalue = QuantityValue \<lparr>shape = [2], data = [1, 2]\<rparr> u_m,
       tols = (0, Plain 0), value_not_quantity = False, expected_units = Some u_m\<rparr>,
      \<lparr>name = ''y'', pvalue = QuantityValue \<lparr>shape = [3], data = [5, 6, 7]\<rparr> u_km,
       tols = (0, Plain 0), value_not_quantity = False, expected_units = Some u_m\<rparr>] ! 1)
         \<and> length st' = length [\<lparr>name = ''x'', pvalue = QuantityValue \<lparr>shape = [2], data = [1, 2]\<rparr> u_m,
       tols = (0, Plain 0), value_not_quantity = False, expected_units = Some u_m\<rparr>,
      \<lparr>name = ''y'', pvalue = QuantityValue \<lparr>shape = [3], data = [5, 6, 7]\<rparr> u_km,
       tols = (0, Plain 0), value_not_quantity = False, expected_units = Some u_m\<rparr>])"
proof -
  have h:
    "(0::nat) < length
     [\<lparr>name = ''x'', pvalue = QuantityValue \<lparr>shape = [2], data = [1, 2]\<rparr> u_m,
       tols = (0, Plain 0), value_not_quantity = False, expected_units = Some u_m\<rparr>,
      \<lparr>name = ''x'', pvalue = QuantityValue \<lparr>shape = [2], data = [3, 4]\<rparr> u_km,
       tols = (0, Plain 0), value_not_quantity = False, expected_units = Some u_m\<rparr>]"
    "(1::nat) < length
     [\<lparr>name = ''x'', pvalue = QuantityValue \<lparr>shape = [2], data = [1, 2]\<rparr> u_m,
       tols = (0, Plain 0), value_not_quantity = False, expected_units = Some u_m\<rparr>,
      \<lparr>name = ''x'', pvalue = QuantityValue \<lparr>shape = [2], data = [3, 4]\<rparr> u_km,
       tols = (0, Plain 0), value_not_quantity = False, expected_units = Some u_m\<rparr>]"
    "pvalue ([\<lparr>name = ''x'', pvalue = QuantityValue \<lparr>shape = [2], data = [1, 2]\<rparr> u_m,
       tols = (0, Plain 0), value_not_quantity = False, expected_units = Some u_m\<rparr>,
      \<lparr>name = ''x'', pvalue = QuantityValue \<lparr>shape = [2], data = [3, 4]\<rparr> u_km,
       tols = (0, Plain 0), value_not_quantity = False, expected_units = Some u_m\<rparr>] ! 0) = QuantityValue \<lparr>shape = [2], data = [1, 2]\<rparr> u_m"
    "pvalue ([\<lparr>name = ''x'', pvalue = QuantityValue \<lparr>shape = [2], data = [1, 2]\<rparr> u_m,
       tols = (0, Plain 0), value_not_quantity = False, expected_units = Some u_m\<rparr>,
      \<lparr>name = ''x'', pvalue = QuantityValue \<lparr>shape = [2], data = [3, 4]\<rparr> u_km,
       tols = (0, Plain 0), value_not_quantity = False, expected_units = Some u_m\<rparr>] ! 1) = QuantityValue \<lparr>shape = [2], data = [3, 4]\<rparr> u_km"
    "is_equivalent u_m u_km"
    "shape \<lparr>shape = [2], data = [1, 2 :: real]\<rparr> = shape \<lparr>shape = [2], data = [3, 4 :: real]\<rparr>"
    "(0::nat) < length
     [\<lparr>name = ''x'', pvalue = QuantityValue \<lparr>shape = [2], data = [1, 2]\<rparr> u_m,
       tols = (0, Plain 0), value_not_quantity = False, expected_units = Some u_m\<rparr>,
      \<lparr>name = ''y'', pvalue = QuantityValue \<lparr>shape = [3], data = [5, 6, 7]\<rparr> u_km,
       tols = (0, Plain 0), value_not_quantity = False, expected_units = Some u_m\<rparr>]"
    "(1::nat) < length
     [\<lparr>name = ''x'', pvalue = QuantityValue \<lparr>shape = [2], data = [1, 2]\<rparr> u_m,
       tols = (0, Plain 0), value_not_quantity = False, expected_units = Some u_m\<rparr>,
      \<lparr>name = ''y'', pvalue = QuantityValue \<lparr>shape = [3], data = [5, 6, 7]\<rparr> u_km,
       tols = (0, Plain 0), value_not_quantity = False, expected_units = Some u_m\<rparr>]"
    "pvalue ([\<lparr>name = ''x'', pvalue = QuantityValue \<lparr>shape = [2], data = [1, 2]\<rparr> u_m,
       tols = (0, Plain 0), value_not_quantity = False, expected_units = Some u_m\<rparr>,
      \<lparr>name = ''y'', pvalue = QuantityValue \<lparr>shape = [3], data = [5, 6, 7]\<rparr> u_km,
       tols = (0, Plain 0), value_not_quantity = False, expected_units = Some u_m\<rparr>] ! 0) = QuantityValue \<lparr>shape = [2], data = [1, 2]\<rparr> u_m"
    "pvalue ([\<lparr>name = ''x'', pvalue = QuantityValue \<lparr>shape = [2], data = [1, 2]\<rparr> u_m,
       tols = (0, Plain 0), value_not_quantity = False, expected_units = Some u_m\<rparr>,
      \<lparr>name = ''y'', pvalue = QuantityValue \<lparr>shape = [3], data = [5, 6, 7]\<rparr> u_km,
       tols = (0, Plain 0), value_not_quantity = False, expected_units = Some u_m\<rparr>] ! 1) = QuantityValue \<lparr>shape = [3], data = [5, 6, 7]\<rparr> u_km"
    "shape \<lparr>shape = [2], data = [1, 2 :: real]\<rparr> \<noteq> shape \<lparr>shape = [3], data = [5, 6, 7 :: real]\<rparr>"
    by (simp_all add: is_equivalent_def u_m_def u_km_def mk_unit_def)
  note c = UnitParameter_eq_converts_right[OF h, of "\<lambda>a b. False"]
  from h c[THEN conjunct1] c[THEN conjunct2] show ?thesis by (intro conjI)
qed

text \<open>
  The claim as it is written fails on values of different shapes: the comparison returns
  \<open>False\<close> at the test of the shapes, before the conversion, and the right operand keeps
  its value in km while the left value is in m (only the tolerance of the left operand
  has been rebound).
\<close>

theorem UnitParameter_eq_counterexample:
  "UnitParameter_eq (\<lambda>a b. False)
     [\<lparr>name = ''x'', pvalue = QuantityValue \<lparr>shape = [2], data = [1, 2]\<rparr> u_m,
       tols = (0, Plain 0), value_not_quantity = False, expected_units = Some u_m\<rparr>,
      \<lparr>name = ''x'', pvalue = QuantityValue \<lparr>shape = [3], data = [1, 2, 3]\<rparr> u_km,
       tols = (0, Plain 0), value_not_quantity = False, expected_units = Some u_m\<rparr>] 0 1
   = (Inr False,
     [\<lparr>name = ''x'', pvalue = QuantityValue \<lparr>shape = [2], data = [1, 2]\<rparr> u_m,
       tols = (0, Quantity 0 u_m), value_not_quantity = False, expected_units = Some u_m\<rparr>,
      \<lparr>name = ''x'', pvalue = QuantityValue \<lparr>shape = [3], data = [1, 2, 3]\<rparr> u_km,
       tols = (0, Plain 0), value_not_quantity = False, expected_units = Some u_m\<rparr>])
   \<and> is_equivalent u_m u_km \<and> u_km \<noteq> u_m"
  by (simp add: UnitParameter_eq_def Let_def is_equivalent_def u_m_def u_km_def mk_unit_def)

subsection \<open>The entries of the normalised transform\<close>

lemma ebind_Inr: "ebind (Inr x) f = f x" by (simp add: ebind_def)
lemma ebind_Inl: "ebind (Inl e) f = Inl e" by (simp add: ebind_def)

lemma along_last_length:
  assumes "length xs = R * n" "0 < n" "\<And>ys. length ys = n \<Longrightarrow> length (g ys) = n"
  shows "length (concat (map g (rows n xs))) = R * n"
proof -
  have u: "\<forall>ys\<in>set (map g (rows n xs)). length ys = n"
    using rows_props(2)[OF assms(1,2)] assms(3) by auto
  show ?thesis using length_concat_uniform[OF u] rows_props(1)[OF assms(1,2)] by simp
qed

lemma delay_array_entries:
  assumes "shape (values_of x) = s @ [f]" "s \<noteq> []" "wf (values_of x)" "0 < f" "length w = f"
    and "is_equivalent df_unit u_per_s"
  shows "\<exists>z. delay_array x \<lparr>shape = [Suc 0, f], data = map complex_of_real w\<rparr> df df_unit unit
              = Inr (z, unit_mul u_per_s unit)
           \<and> shape z = s @ [f] \<and> length (data z) = prod_list s * f
           \<and> (\<forall>row k. list_all2 (<) row s \<longrightarrow> k < f \<longrightarrow>
                getitem z (row @ [k]) = spec_delay (values_of x) w (df * scale df_unit) row k)"
proof -
  define d where "d = values_of x"
  let ?R = "prod_list s"
  let ?cw = "map complex_of_real w"
  define tap where "tap = map (\<lambda>q. data d ! q * ?cw ! (q mod f)) [0..<?R * f]"
  have ld: "length (data d) = ?R * f" using assms(1,3) by (simp add: wf_def d_def)
  have sd: "shape d = s @ [f]" using assms(1) by (simp add: d_def)
  have s1: "Suc 0 \<le> length s" using assms(2) by (cases s) auto
  have b: "broadcast2 (*) d \<lparr>shape = [Suc 0, f], data = ?cw\<rparr> = Inr \<lparr>shape = s @ [f], data = tap\<rparr>"
    using broadcast2_last_right[OF sd s1, of "(*)" ?cw] by (simp add: tap_def)
  have lt: "length tap = ?R * f" by (simp add: tap_def)
  have F: "np_fft \<lparr>shape = s @ [f], data = tap\<rparr>
         = Inr \<lparr>shape = s @ [f], data = concat (map dft (rows f tap))\<rparr>"
    using assms(4) by (simp add: np_fft_def along_last_def)
  have ud: "\<forall>ys\<in>set (map dft (rows f tap)). length ys = f"
    using rows_props(2)[OF lt assms(4)] by (auto simp: length_dft)
  have S: "np_fftshift \<lparr>shape = s @ [f], data = concat (map dft (rows f tap))\<rparr>
         = \<lparr>shape = s @ [f], data = concat (map (\<lambda>ys. fftshift1 (dft ys)) (rows f tap))\<rparr>"
    by (simp add: np_fftshift_def along_last_def rows_concat[OF ud assms(4)] comp_def)
  define zd where "zd = map (\<lambda>c. c * complex_of_real (df * scale df_unit))
                          (concat (map (\<lambda>ys. fftshift1 (dft ys)) (rows f tap)))"
  have run: "delay_array x \<lparr>shape = [Suc 0, f], data = ?cw\<rparr> df df_unit unit
           = Inr (\<lparr>shape = s @ [f], data = zd\<rparr>, unit_mul u_per_s unit)"
    unfolding delay_array_def d_def[symmetric] b ebind_Inr F S
    using assms(6) by (simp add: to_unit_def ebind_def map_nd_def zd_def u_per_s_def mk_unit_def)
  have gl: "length (fftshift1 (dft ys)) = f" if "length ys = f" for ys :: "complex list"
    using that by (simp add: length_fftshift1 length_dft)
  have lz: "length zd = ?R * f"
    using along_last_length[OF lt assms(4) gl] by (simp add: zd_def)
  have el: "getitem \<lparr>shape = s @ [f], data = zd\<rparr> (row @ [k]) = spec_delay d w (df * scale df_unit) row k"
    if row: "list_all2 (<) row s" and k: "k < f" for row k
  proof -
    define r where "r = offset s row"
    have r: "r < ?R" using offset_indices_nth[OF row] by (simp add: r_def)
    have off: "offset (s @ [f]) (row @ [m]) = r * f + m" if "m < f" for m
      using offset_snoc[OF row that] by (simp add: r_def)
    define k' where "k' = (k + (f - f div 2)) mod f"
    have k': "k' < f" using assms(4) by (simp add: k'_def)
    let ?row = "take f (drop (r * f) tap)"
    have rb: "r * f + f \<le> ?R * f"
    proof -
      have "r * f + f = Suc r * f" by simp
      also have "\<dots> \<le> ?R * f" using r by (metis Suc_leI mult_le_mono1)
      finally show ?thesis .
    qed
    have lrow: "length ?row = f" using rb lt by simp
    have rf: "r * f + k < ?R * f"
    proof -
      have "r * f + k < r * f + f" using k by simp
      also have "\<dots> = Suc r * f" by simp
      also have "\<dots> \<le> ?R * f" using r by (metis Suc_leI mult_le_mono1)
      finally show ?thesis .
    qed
    have rowm: "?row ! m = data d ! (r * f + m) * complex_of_real (w ! m)" if m: "m < f" for m
    proof -
      have "r * f + m < ?R * f"
      proof -
        have "r * f + m < r * f + f" using m by simp
        also have "\<dots> = Suc r * f" by simp
        also have "\<dots> \<le> ?R * f" using r by (metis Suc_leI mult_le_mono1)
        finally show ?thesis .
      qed
      then have "tap ! (r * f + m) = data d ! (r * f + m) * ?cw ! ((r * f + m) mod f)"
        by (simp add: tap_def)
      moreover have "(r * f + m) mod f = m" using m by simp
      ultimately show ?thesis using row_nth[OF lt r m] m assms(5) by simp
    qed
    have "zd ! (r * f + k) = fftshift1 (dft ?row) ! k * complex_of_real (df * scale df_unit)"
      using along_last_data_nth(1)[OF lt assms(4) r k gl] along_last_length[OF lt assms(4) gl] rf
      by (simp add: zd_def)
    also have "fftshift1 (dft ?row) ! k = dft ?row ! k'"
      using fftshift1_nth[of k "dft ?row"] k lrow by (simp add: length_dft k'_def)
    also have "dft ?row ! k' = (\<Sum>m\<leftarrow>[0..<f]. ?row ! m * cis (- 2 * pi * real m * real k' / real f))"
      using dft_nth[of k' ?row] k' lrow by simp
    also have "\<dots> = (\<Sum>m\<leftarrow>[0..<f]. getitem d (row @ [m]) * complex_of_real (w ! m)
                          * cis (- 2 * pi * real m * real k' / real f))"
    proof (rule arg_cong[where f = sum_list], rule map_cong[OF refl])
      fix m assume "m \<in> set [0..<f]"
      then have m: "m < f" by simp
      show "?row ! m * cis (- 2 * pi * real m * real k' / real f)
          = getitem d (row @ [m]) * complex_of_real (w ! m) * cis (- 2 * pi * real m * real k' / real f)"
        by (simp only: rowm[OF m] getitem_def sd off[OF m])
    qed
    finally show ?thesis
      using off[OF k] assms(5) by (simp add: getitem_def spec_delay_def Let_def k'_def)
  qed
  show ?thesis
    unfolding run d_def[symmetric] using lz el by (intro exI[of _ "\<lparr>shape = s @ [f], data = zd\<rparr>"]) simp
qed

subsection \<open>The cross-multiplied transform\<close>

lemma delay_transform_rank3:
  assumes "shape (values_of x1) = [b, t, f]" "shape (values_of x2) = [b, t, f]"
    and "wf (values_of x1)" "wf (values_of x2)" "0 < f" "length (window f) = f"
    and "is_equivalent df_unit u_per_s"
  shows "\<exists>out. delay_transform x1 (Some x2) (Some (Quantity df df_unit)) window =
            Inr (Quantity out
                  (unit_mul (unit_mul u_per_s (case x1 of Plain _ \<Rightarrow> dimensionless | Quantity _ u \<Rightarrow> u))
                            (unit_mul u_per_s (case x1 of Plain _ \<Rightarrow> dimensionless | Quantity _ u \<Rightarrow> u))))
          \<and> shape out = [b, b, t, f]
          \<and> (\<forall>i<b. \<forall>j<b. \<forall>\<tau><t. \<forall>k<f.
                getitem out [i, j, \<tau>, k] =
                  cnj (spec_delay (values_of x1) (window f) (df * scale df_unit) [j, \<tau>] k)
                  * spec_delay (values_of x2) (window f) (df * scale df_unit) [i, \<tau>] k)"
proof -
  let ?U = "case x1 of Plain _ \<Rightarrow> dimensionless | Quantity _ u \<Rightarrow> u"
  let ?win = "\<lparr>shape = [Suc 0, f], data = map complex_of_real (window f)\<rparr>"
  have s: "[b, t, f] = [b, t] @ [f]" "[b, t] \<noteq> []" by simp_all
  from delay_array_entries[where x = x1 and s = "[b, t]" and f = f and w = "window f"
      and df_unit = df_unit and df = df and unit = ?U]
    assms(1,3,5,6,7)
  obtain z1 where z1: "delay_array x1 ?win df df_unit ?U = Inr (z1, unit_mul u_per_s ?U)"
    "shape z1 = [b, t, f]" "length (data z1) = b * t * f"
    "\<And>row k. list_all2 (<) row [b, t] \<Longrightarrow> k < f \<Longrightarrow>
       getitem z1 (row @ [k]) = spec_delay (values_of x1) (window f) (df * scale df_unit) row k"
    by auto
  from delay_array_entries[where x = x2 and s = "[b, t]" and f = f and w = "window f"
      and df_unit = df_unit and df = df and unit = ?U]
    assms(2,4,5,6,7)
  obtain z2 where z2: "delay_array x2 ?win df df_unit ?U = Inr (z2, unit_mul u_per_s ?U)"
    "shape z2 = [b, t, f]" "length (data z2) = b * t * f"
    "\<And>row k. list_all2 (<) row [b, t] \<Longrightarrow> k < f \<Longrightarrow>
       getitem z2 (row @ [k]) = spec_delay (values_of x2) (window f) (df * scale df_unit) row k"
    by auto
  have W: "reshape_window (window f) f = Inr ?win"
    using assms(6) by (simp add: reshape_window_def)
  have N1: "getitem_newaxis 0 2 z1 = Inr \<lparr>shape = [Suc 0, b, t, f], data = data z1\<rparr>"
    by (simp add: getitem_newaxis_def z1(2))
  have N2: "getitem_newaxis (Suc 0) 3 z2 = Inr \<lparr>shape = [b, Suc 0, t, f], data = data z2\<rparr>"
    by (simp add: getitem_newaxis_def z2(2))
  let ?out = "\<lparr>shape = [b, b, t, f],
               data = map (\<lambda>idx. map cnj (data z1) ! offset [Suc 0, b, t, f] idx
                                  * data z2 ! offset [b, Suc 0, t, f] idx)
                        (indices [b, b, t, f])\<rparr>"
  have C: "broadcast2 (*) (map_nd cnj \<lparr>shape = [Suc 0, b, t, f], data = data z1\<rparr>)
             \<lparr>shape = [b, Suc 0, t, f], data = data z2\<rparr> = Inr ?out"
    by (simp add: map_nd_def cross3 del: indices.simps offset.simps)
  have run: "delay_transform x1 (Some x2) (Some (Quantity df df_unit)) window =
               Inr (Quantity ?out (unit_mul (unit_mul u_per_s ?U) (unit_mul u_per_s ?U)))"
    unfolding delay_transform_def
    using assms(1,2)
    by (simp add: Let_def W z1(1) z2(1) N1 N2 C ebind_Inr del: indices.simps offset.simps)
  have el: "getitem ?out [i, j, \<tau>, k] =
              cnj (spec_delay (values_of x1) (window f) (df * scale df_unit) [j, \<tau>] k)
              * spec_delay (values_of x2) (window f) (df * scale df_unit) [i, \<tau>] k"
    if "i < b" "j < b" "\<tau> < t" "k < f" for i j \<tau> k
  proof -
    have o1: "offset [b, t, f] [j, \<tau>, k] < length (data z1)"
      using offset_indices_nth[of "[j, \<tau>, k]" "[b, t, f]"] that z1(3)
      by (simp add: mult.assoc del: offset.simps)
    have e1: "data z1 ! offset [b, t, f] [j, \<tau>, k]
            = spec_delay (values_of x1) (window f) (df * scale df_unit) [j, \<tau>] k"
      using z1(4)[of "[j, \<tau>]" k] that by (simp add: getitem_def z1(2) del: offset.simps)
    have e2: "data z2 ! offset [b, t, f] [i, \<tau>, k]
            = spec_delay (values_of x2) (window f) (df * scale df_unit) [i, \<tau>] k"
      using z2(4)[of "[i, \<tau>]" k] that by (simp add: getitem_def z2(2) del: offset.simps)
    have "getitem ?out [i, j, \<tau>, k]
        = map cnj (data z1) ! offset [b, t, f] [j, \<tau>, k] * data z2 ! offset [b, t, f] [i, \<tau>, k]"
      using cross3_nth[OF that, of "(*)" "map cnj (data z1)" "data z2"]
      by (simp add: getitem_def del: indices.simps offset.simps)
    also have "\<dots> = cnj (data z1 ! offset [b, t, f] [j, \<tau>, k]) * data z2 ! offset [b, t, f] [i, \<tau>, k]"
      by (simp only: nth_map[OF o1])
    finally show ?thesis by (simp only: e1 e2)
  qed
  show ?thesis
    unfolding run using el by (intro exI[of _ ?out]) simp
qed

lemma delay_transform_rank4:
  assumes "shape (values_of x1) = [p, b, t, f]" "shape (values_of x2) = [p, b, t, f]"
    and "wf (values_of x1)" "wf (values_of x2)" "0 < f" "length (window f) = f"
    and "is_equivalent df_unit u_per_s"
  shows "\<exists>out. delay_transform x1 (Some x2) (Some (Quantity df df_unit)) window =
            Inr (Quantity out
                  (unit_mul (unit_mul u_per_s (case x1 of Plain _ \<Rightarrow> dimensionless | Quantity _ u \<Rightarrow> u))
                            (unit_mul u_per_s (case x1 of Plain _ \<Rightarrow> dimensionless | Quantity _ u \<Rightarrow> u))))
          \<and> shape out = [p, b, b, t, f]
          \<and> (\<forall>\<pi><p. \<forall>i<b. \<forall>j<b. \<forall>\<tau><t. \<forall>k<f.
                getitem out [\<pi>, i, j, \<tau>, k] =
                  cnj (spec_delay (values_of x1) (window f) (df * scale df_unit) [\<pi>, j, \<tau>] k)
                  * spec_delay (values_of x2) (window f) (df * scale df_unit) [\<pi>, i, \<tau>] k)"
proof -
  let ?U = "case x1 of Plain _ \<Rightarrow> dimensionless | Quantity _ u \<Rightarrow> u"
  let ?win = "\<lparr>shape = [Suc 0, f], data = map complex_of_real (window f)\<rparr>"
  from delay_array_entries[where x = x1 and s = "[p, b, t]" and f = f and w = "window f"
      and df_unit = df_unit and df = df and unit = ?U]
    assms(1,3,5,6,7)
  obtain z1 where z1: "delay_array x1 ?win df df_unit ?U = Inr (z1, unit_mul u_per_s ?U)"
    "shape z1 = [p, b, t, f]" "length (data z1) = p * (b * t) * f"
    "\<And>row k. list_all2 (<) row [p, b, t] \<Longrightarrow> k < f \<Longrightarrow>
       getitem z1 (row @ [k]) = spec_delay (values_of x1) (window f) (df * scale df_unit) row k"
    by auto
  from delay_array_entries[where x = x2 and s = "[p, b, t]" and f = f and w = "window f"
      and df_unit = df_unit and df = df and unit = ?U]
    assms(2,4,5,6,7)
  obtain z2 where z2: "delay_array x2 ?win df df_unit ?U = Inr (z2, unit_mul u_per_s ?U)"
    "shape z2 = [p, b, t, f]" "length (data z2) = p * (b * t) * f"
    "\<And>row k. list_all2 (<) row [p, b, t] \<Longrightarrow> k < f \<Longrightarrow>
       getitem z2 (row @ [k]) = spec_delay (values_of x2) (window f) (df * scale df_unit) row k"
    by auto
  have W: "reshape_window (window f) f = Inr ?win"
    using assms(6) by (simp add: reshape_window_def)
  have N1: "getitem_newaxis (Suc 0) 3 z1 = Inr \<lparr>shape = [p, Suc 0, b, t, f], data = data z1\<rparr>"
    by (simp add: getitem_newaxis_def z1(2))
  have N2: "getitem_newaxis 2 4 z2 = Inr \<lparr>shape = [p, b, Suc 0, t, f], data = data z2\<rparr>"
    by (simp add: getitem_newaxis_def z2(2))
  let ?out = "\<lparr>shape = [p, b, b, t, f],
               data = map (\<lambda>idx. map cnj (data z1) ! offset [p, Suc 0, b, t, f] idx
                                  * data z2 ! offset [p, b, Suc 0, t, f] idx)
                        (indices [p, b, b, t, f])\<rparr>"
  have C: "broadcast2 (*) (map_nd cnj \<lparr>shape = [p, Suc 0, b, t, f], data = data z1\<rparr>)
             \<lparr>shape = [p, b, Suc 0, t, f], data = data z2\<rparr> = Inr ?out"
    by (simp add: map_nd_def cross4 del: indices.simps offset.simps)
  have run: "delay_transform x1 (Some x2) (Some (Quantity df df_unit)) window =
               Inr (Quantity ?out (unit_mul (unit_mul u_per_s ?U) (unit_mul u_per_s ?U)))"
    unfolding delay_transform_def
    using assms(1,2)
    by (simp add: Let_def W z1(1) z2(1) N1 N2 C ebind_Inr del: indices.simps offset.simps)
  have el: "getitem ?out [\<pi>, i, j, \<tau>, k] =
              cnj (spec_delay (values_of x1) (window f) (df * scale df_unit) [\<pi>, j, \<tau>] k)
              * spec_delay (values_of x2) (window f) (df * scale df_unit) [\<pi>, i, \<tau>] k"
    if "\<pi> < p" "i < b" "j < b" "\<tau> < t" "k < f" for \<pi> i j \<tau> k
  proof -
    have o1: "offset [p, b, t, f] [\<pi>, j, \<tau>, k] < length (data z1)"
      using offset_indices_nth[of "[\<pi>, j, \<tau>, k]" "[p, b, t, f]"] that z1(3)
      by (simp add: mult.assoc del: offset.simps)
    have e1: "data z1 ! offset [p, b, t, f] [\<pi>, j, \<tau>, k]
            = spec_delay (values_of x1) (window f) (df * scale df_unit) [\<pi>, j, \<tau>] k"
      using z1(4)[of "[\<pi>, j, \<tau>]" k] that by (simp add: getitem_def z1(2) del: offset.simps)
    have e2: "data z2 ! offset [p, b, t, f] [\<pi>, i, \<tau>, k]
            = spec_delay (values_of x2) (window f) (df * scale df_unit) [\<pi>, i, \<tau>] k"
      using z2(4)[of "[\<pi>, i, \<tau>]" k] that by (simp add: getitem_def z2(2) del: offset.simps)
    have "getitem ?out [\<pi>, i, j, \<tau>, k]
        = map cnj (data z1) ! offset [p, b, t, f] [\<pi>, j, \<tau>, k] * data z2 ! offset [p, b, t, f] [\<pi>, i, \<tau>, k]"
      using cross4_nth[OF that, of "(*)" "map cnj (data z1)" "data z2"]
      by (simp add: getitem_def del: indices.simps offset.simps)
    also have "\<dots> = cnj (data z1 ! offset [p, b, t, f] [\<pi>, j, \<tau>, k]) * data z2 ! offset [p, b, t, f] [\<pi>, i, \<tau>, k]"
      by (simp only: nth_map[OF o1])
    finally show ?thesis by (simp only: e1 e2)
  qed
  show ?thesis
    unfolding run using el by (intro exI[of _ ?out]) simp
qed

lemma delay_array_no_freqs:
  assumes "shape (values_of x) = s @ [0]" "s \<noteq> []"
  shows "delay_array x \<lparr>shape = [Suc 0, 0], data = []\<rparr> df df_unit unit
           = Inl (ValueError ''Invalid number of FFT data points'')"
proof -
  have s1: "Suc 0 \<le> length s" using assms(2) by (cases s) auto
  have b: "broadcast2 (*) (values_of x) \<lparr>shape = [Suc 0, 0], data = []\<rparr>
         = Inr \<lparr>shape = s @ [0], data = []\<rparr>"
    using broadcast2_last_right[OF assms(1) s1, of "(*)" "[]"] by simp
  show ?thesis
    unfolding delay_array_def b ebind_Inr by (simp add: np_fft_def ebind_Inl)
qed

lemma delay_transform_no_freqs:
  assumes "shape (values_of x1) = s @ [0]" "s \<noteq> []" "shape (values_of x2) = shape (values_of x1)"
    and "length (window 0) = 0"
  shows "delay_transform x1 (Some x2) (Some (Quantity df df_unit)) window
           = Inl (ValueError ''Invalid number of FFT data points'')"
  unfolding delay_transform_def
  using assms
  by (simp add: Let_def reshape_window_def ebind_Inr ebind_Inl delay_array_no_freqs[OF assms(1,2)])

text \<open>
  C1, as amended. For same-shape, well-formed inputs with \<open>Nfreqs > 0\<close>, a window
  function that returns \<open>Nfreqs\<close> numbers and \<open>delta_f\<close> a quantity of dimension 1/time,
  \<open>delay_transform\<close> returns a quantity whose unit is the square of 1/s times the unit
  of \<open>data_1\<close> (no unit for a plain array), and whose entries are products of two entries
  of the normalised transform \<open>spec_delay\<close>: the tapered row, its discrete Fourier
  transform along the frequency axis, shifted so that the zero bin is in the centre,
  times \<open>delta_f\<close> in 1/s. For rank-3 input of shape \<open>(b, t, f)\<close> the result has shape
  \<open>(b, b, t, f)\<close>, and for rank-4 input of shape \<open>(p, b, t, f)\<close> it has shape
  \<open>(p, b, b, t, f)\<close>. Of the two baseline axes of the result the first is the baseline
  of \<open>data_2\<close> and the second the baseline of \<open>data_1\<close>: the entry at the baseline indices
  \<open>i, j\<close> is the conjugate of the transform of baseline \<open>j\<close> of \<open>data_1\<close> times the
  transform of baseline \<open>i\<close> of \<open>data_2\<close>. With \<open>Nfreqs = 0\<close> the call fails with the
  \<open>ValueError\<close> of the discrete Fourier transform. Numbers are complex numbers over the
  reals here, not floating-point numbers.
\<close>

theorem delay_transform_spec:
  assumes "shape (values_of x1) = [b, t, f]" "shape (values_of x2) = [b, t, f]"
    and "wf (values_of x1)" "wf (values_of x2)"
    and "shape (values_of y1) = [p, b', t', f]" "shape (values_of y2) = [p, b', t', f]"
    and "wf (values_of y1)" "wf (values_of y2)"
    and "0 < f" "length (window f) = f" "is_equivalent df_unit u_per_s"
    and "shape (values_of z1) = s0 @ [0]" "s0 \<noteq> []"
    and "shape (values_of z2) = shape (values_of z1)" "length (window 0) = 0"
  shows "(\<exists>out. delay_transform x1 (Some x2) (Some (Quantity df df_unit)) window =
            Inr (Quantity out
                  (unit_mul (unit_mul u_per_s (case x1 of Plain _ \<Rightarrow> dimensionless | Quantity _ u \<Rightarrow> u))
                            (unit_mul u_per_s (case x1 of Plain _ \<Rightarrow> dimensionless | Quantity _ u \<Rightarrow> u))))
          \<and> shape out = [b, b, t, f]
          \<and> (\<forall>i<b. \<forall>j<b. \<forall>\<tau><t. \<forall>k<f.
                getitem out [i, j, \<tau>, k] =
                  cnj (spec_delay (values_of x1) (window f) (df * scale df_unit) [j, \<tau>] k)
                  * spec_delay (values_of x2) (window f) (df * scale df_unit) [i, \<tau>] k))
       \<and> (\<exists>out. delay_transform y1 (Some y2) (Some (Quantity df df_unit)) window =
            Inr (Quantity out
                  (unit_mul (unit_mul u_per_s (case y1 of Plain _ \<Rightarrow> dimensionless | Quantity _ u \<Rightarrow> u))
                            (unit_mul u_per_s (case y1 of Plain _ \<Rightarrow> dimensionless | Quantity _ u \<Rightarrow> u))))
          \<and> shape out = [p, b', b', t', f]
          \<and> (\<forall>\<pi><p. \<forall>i<b'. \<forall>j<b'. \<forall>\<tau><t'. \<forall>k<f.
                getitem out [\<pi>, i, j, \<tau>, k] =
                  cnj (spec_delay (values_of y1) (window f) (df * scale df_unit) [\<pi>, j, \<tau>] k)
                  * spec_delay (values_of y2) (window f) (df * scale df_unit) [\<pi>, i, \<tau>] k))
       \<and> delay_transform z1 (Some z2) (Some (Quantity df df_unit)) window =
            Inl (ValueError ''Invalid number of FFT data points'')"
  using delay_transform_rank3[where window = window and f = f and df = df, OF assms(1,2,3,4,9,10,11)]
    delay_transform_rank4[where window = window and f = f and df = df, OF assms(5,6,7,8,9,10,11)]
    delay_transform_no_freqs[where window = window and df = df and df_unit = df_unit, OF assms(12,13,14,15)]
  by (intro conjI)

theorem delay_transform_spec_witness:
  "shape (values_of (Plain \<lparr>shape = [2, 1, 1], data = [1, 2 :: complex]\<rparr>)) = [2, 1, 1]
   \<and> shape (values_of (Plain \<lparr>shape = [2, 1, 1], data = [3, 4 :: complex]\<rparr>)) = [2, 1, 1]
   \<and> wf (values_of (Plain \<lparr>shape = [2, 1, 1], data = [1, 2 :: complex]\<rparr>))
   \<and> wf (values_of (Plain \<lparr>shape = [2, 1, 1], data = [3, 4 :: complex]\<rparr>))
   \<and> shape (values_of (Quantity \<lparr>shape = [1, 2, 1, 1], data = [1, 2 :: complex]\<rparr> u_K)) = [1, 2, 1, 1]
   \<and> shape (values_of (Quantity \<lparr>shape = [1, 2, 1, 1], data = [3, 4 :: complex]\<rparr> u_K)) = [1, 2, 1, 1]
   \<and> wf (values_of (Quantity \<lparr>shape = [1, 2, 1, 1], data = [1, 2 :: complex]\<rparr> u_K))
   \<and> wf (values_of (Quantity \<lparr>shape = [1, 2, 1, 1], data = [3, 4 :: complex]\<rparr> u_K))
   \<and> (0::nat) < 1
   \<and> length ((\<lambda>n. replicate n 1) 1 :: real list) = 1
   \<and> is_equivalent u_Hz u_per_s
   \<and> shape (values_of (Plain \<lparr>shape = [1, 1, 0], data = ([] :: complex list)\<rparr>)) = [1, 1] @ [0]
   \<and> [1, 1 :: nat] \<noteq> []
   \<and> shape (values_of (Plain \<lparr>shape = [1, 1, 0], data = ([] :: complex list)\<rparr>)) = shape (values_of (Plain \<lparr>shape = [1, 1, 0], data = ([] :: complex list)\<rparr>))
   \<and> length ((\<lambda>n. replicate n 1) 0 :: real list) = 0
   \<and> (\<exists>out. delay_transform (Plain \<lparr>shape = [2, 1, 1], data = [1, 2 :: complex]\<rparr>) (Some (Plain \<lparr>shape = [2, 1, 1], data = [3, 4 :: complex]\<rparr>)) (Some (Quantity 2 u_Hz)) (\<lambda>n. replicate n 1) =
            Inr (Quantity out
                  (unit_mul (unit_mul u_per_s (case (Plain \<lparr>shape = [2, 1, 1], data = [1, 2 :: complex]\<rparr>) of Plain _ \<Rightarrow> dimensionless | Quantity _ u \<Rightarrow> u))
                            (unit_mul u_per_s (case (Plain \<lparr>shape = [2, 1, 1], data = [1, 2 :: complex]\<rparr>) of Plain _ \<Rightarrow> dimensionless | Quantity _ u \<Rightarrow> u))))
          \<and> shape out = [2, 2, 1, 1]
          \<and> (\<forall>i<2. \<forall>j<2. \<forall>\<tau><1. \<forall>k<1.
                getitem out [i, j, \<tau>, k] =
                  cnj (spec_delay (values_of (Plain \<lparr>shape = [2, 1, 1], data = [1, 2 :: complex]\<rparr>)) ((\<lambda>n. replicate n 1) 1) (2 * scale u_Hz) [j, \<tau>] k)
                  * spec_delay (values_of (Plain \<lparr>shape = [2, 1, 1], data = [3, 4 :: complex]\<rparr>)) ((\<lambda>n. replicate n 1) 1) (2 * scale u_Hz) [i, \<tau>] k))
   \<and> (\<exists>out. delay_transform (Quantity \<lparr>shape = [1, 2, 1, 1], data = [1, 2 :: complex]\<rparr> u_K) (Some (Quantity \<lparr>shape = [1, 2, 1, 1], data = [3, 4 :: complex]\<rparr> u_K)) (Some (Quantity 2 u_Hz)) (\<lambda>n. replicate n 1) =
            Inr (Quantity out
                  (unit_mul (unit_mul u_per_s (case (Quantity \<lparr>shape = [1, 2, 1, 1], data = [1, 2 :: complex]\<rparr> u_K) of Plain _ \<Rightarrow> dimensionless | Quantity _ u \<Rightarrow> u))
                            (unit_mul u_per_s (case (Quantity \<lparr>shape = [1, 2, 1, 1], data = [1, 2 :: complex]\<rparr> u_K) of Plain _ \<Rightarrow> dimensionless | Quantity _ u \<Rightarrow> u))))
          \<and> shape out = [1, 2, 2, 1, 1]
          \<and> (\<forall>\<pi><1. \<forall>i<2. \<forall>j<2. \<forall>\<tau><1. \<forall>k<1.
                getitem out [\<pi>, i, j, \<tau>, k] =
                  cnj (spec_delay (values_of (Quantity \<lparr>shape = [1, 2, 1, 1], data = [1, 2 :: complex]\<rparr> u_K)) ((\<lambda>n. replicate n 1) 1) (2 * scale u_Hz) [\<pi>, j, \<tau>] k)
                  * spec_delay (values_of (Quantity \<lparr>shape = [1, 2, 1, 1], data = [3, 4 :: complex]\<rparr> u_K)) ((\<lambda>n. replicate n 1) 1) (2 * scale u_Hz) [\<pi>, i, \<tau>] k))
   \<and> delay_transform (Plain \<lparr>shape = [1, 1, 0], data = ([] :: complex list)\<rparr>) (Some (Plain \<lparr>shape = [1, 1, 0], data = ([] :: complex list)\<rparr>)) (Some (Quantity 2 u_Hz)) (\<lambda>n. replicate n 1) =
       Inl (ValueError ''Invalid number of FFT data points'')"
proof -
  have h:
    "shape (values_of (Plain \<lparr>shape = [2, 1, 1], data = [1, 2 :: complex]\<rparr>)) = [2, 1, 1]"
    "shape (values_of (Plain \<lparr>shape = [2, 1, 1], data = [3, 4 :: complex]\<rparr>)) = [2, 1, 1]"
    "wf (values_of (Plain \<lparr>shape = [2, 1, 1], data = [1, 2 :: complex]\<rparr>))"
    "wf (values_of (Plain \<lparr>shape = [2, 1, 1], data = [3, 4 :: complex]\<rparr>))"
    "shape (values_of (Quantity \<lparr>shape = [1, 2, 1, 1], data = [1, 2 :: complex]\<rparr> u_K)) = [1, 2, 1, 1]"
    "shape (values_of (Quantity \<lparr>shape = [1, 2, 1, 1], data = [3, 4 :: complex]\<rparr> u_K)) = [1, 2, 1, 1]"
    "wf (values_of (Quantity \<lparr>shape = [1, 2, 1, 1], data = [1, 2 :: complex]\<rparr> u_K))"
    "wf (values_of (Quantity \<lparr>shape = [1, 2, 1, 1], data = [3, 4 :: complex]\<rparr> u_K))"
    "(0::nat) < 1"
    "length ((\<lambda>n. replicate n 1) 1 :: real list) = 1"
    "is_equivalent u_Hz u_per_s"
    "shape (values_of (Plain \<lparr>shape = [1, 1, 0], data = ([] :: complex list)\<rparr>)) = [1, 1] @ [0]"
    "[1, 1 :: nat] \<noteq> []"
    "shape (values_of (Plain \<lparr>shape = [1, 1, 0], data = ([] :: complex list)\<rparr>)) = shape (values_of (Plain \<lparr>shape = [1, 1, 0], data = ([] :: complex list)\<rparr>))"
    "length ((\<lambda>n. replicate n 1) 0 :: real list) = 0"
    by (simp_all add: wf_def values_of_def is_equivalent_def u_Hz_def u_per_s_def mk_unit_def)
  note c = delay_transform_spec[where window = "\<lambda>n. replicate n 1" and f = 1 and df = 2, OF h]
  from h c[THEN conjunct1] c[THEN conjunct2, THEN conjunct1] c[THEN conjunct2, THEN conjunct2]
  show ?thesis by (intro conjI)
qed

text \<open>
  The claim as it is written names the two baseline axes of the result after \<open>data_1\<close>
  and \<open>data_2\<close>, in this order. On two baselines, \<open>data_1\<close> holding 1 and 2 and \<open>data_2\<close>
  holding 3 and 4, with one time, one frequency, a window of ones and \<open>delta_f\<close> = 1 Hz,
  the result holds 3, 6, 4, 8: its entry \<open>[0, 1]\<close> is 6, the product of baseline 1 of
  \<open>data_1\<close> and baseline 0 of \<open>data_2\<close>, where baseline 0 of \<open>data_1\<close> times baseline 1 of
  \<open>data_2\<close> is 4. And on arrays with no frequency the call fails.
\<close>

theorem delay_transform_axes_counterexample:
  "delay_transform (Plain \<lparr>shape = [2, 1, 1], data = [1, 2]\<rparr>)
       (Some (Plain \<lparr>shape = [2, 1, 1], data = [3, 4]\<rparr>)) (Some (Quantity 1 u_Hz))
       (\<lambda>n. replicate n 1) =
     Inr (Quantity \<lparr>shape = [2, 2, 1, 1], data = [3, 6, 4, 8]\<rparr>
            (unit_mul (unit_mul u_per_s dimensionless) (unit_mul u_per_s dimensionless)))
   \<and> getitem \<lparr>shape = [2, 2, 1, 1], data = [3, 6, 4, 8 :: complex]\<rparr> [0, 1, 0, 0] = 6
   \<and> cnj (spec_delay \<lparr>shape = [2, 1, 1], data = [1, 2]\<rparr> [1] 1 [0, 0] 0)
       * spec_delay \<lparr>shape = [2, 1, 1], data = [3, 4]\<rparr> [1] 1 [1, 0] 0 = 4
   \<and> delay_transform (Plain \<lparr>shape = [1, 1, 0], data = []\<rparr>)
       (Some (Plain \<lparr>shape = [1, 1, 0], data = []\<rparr>)) (Some (Quantity 1 u_Hz))
       (\<lambda>n. replicate n 1) = Inl (ValueError ''Invalid number of FFT data points'')"
proof -
  have a: "delay_transform (Plain \<lparr>shape = [2, 1, 1], data = [1, 2]\<rparr>)
       (Some (Plain \<lparr>shape = [2, 1, 1], data = [3, 4]\<rparr>)) (Some (Quantity 1 u_Hz))
       (\<lambda>n. replicate n 1) =
     Inr (Quantity \<lparr>shape = [2, 2, 1, 1], data = [3, 6, 4, 8]\<rparr>
            (unit_mul (unit_mul u_per_s dimensionless) (unit_mul u_per_s dimensionless)))"
    by (simp add: delay_transform_def delay_array_def ebind_def reshape_window_def
      values_of_def broadcast2_def broadcast_shapes_def pad_shape_def np_fft_def np_fftshift_def
      along_last_def rows_def dft_def fftshift1_def to_unit_def is_equivalent_def map_nd_def
      getitem_newaxis_def u_Hz_def u_per_s_def mk_unit_def Let_def upt_rec)
  have b: "getitem \<lparr>shape = [2, 2, 1, 1], data = [3, 6, 4, 8 :: complex]\<rparr> [0, 1, 0, 0] = 6"
    by (simp add: getitem_def)
  have c: "cnj (spec_delay \<lparr>shape = [2, 1, 1], data = [1, 2]\<rparr> [1] 1 [0, 0] 0)
       * spec_delay \<lparr>shape = [2, 1, 1], data = [3, 4]\<rparr> [1] 1 [1, 0] 0 = 4"
    by (simp add: spec_delay_def getitem_def Let_def)
  have d: "delay_transform (Plain \<lparr>shape = [1, 1, 0], data = []\<rparr>)
       (Some (Plain \<lparr>shape = [1, 1, 0], data = []\<rparr>)) (Some (Quantity 1 u_Hz))
       (\<lambda>n. replicate n 1) = Inl (ValueError ''Invalid number of FFT data points'')"
    by (simp add: delay_transform_def delay_array_def ebind_def reshape_window_def
      values_of_def broadcast2_def broadcast_shapes_def pad_shape_def np_fft_def map_nd_def Let_def)
  from a b c d show ?thesis by (intro conjI)
qed

end
